theory Spec2Isabelle
  imports Complex_Main "HOL-Library.AList"
begin

section \<open>Numbers and configuration\<close>

text \<open>
  The engine is TypeScript. A JavaScript \<open>number\<close> that holds a weight or a score is
  modelled as a real number; counters, depths, ids and clock values are integers.
  \<open>Math.round\<close> rounds to the nearest integer, a tie going up.
\<close>

definition Math_round :: "real \<Rightarrow> int" where
  "Math_round x = \<lfloor>x + 1 / 2\<rfloor>"

text \<open>The fields of \<open>config\<close> that the interview engine and the gateway read.\<close>

record config =
  maxFollowUpDepth :: int
  maxQuestions :: int
  mockAiServices :: bool
  maxRetries :: int

section \<open>Question plan\<close>

record CompetencyArea =
  ca_name :: string
  ca_weight :: real
  ca_skills :: "string list"

record PlannedCompetency =
  pc_name :: string
  pc_weight :: real
  planned_questions :: int
  skills_to_cover :: "string list"

record QuestionPlan =
  competencies :: "PlannedCompetency list"
  total_planned_questions :: int
  estimated_duration_minutes :: int

text \<open>
  \<open>generateQuestionPlan\<close>: the weights are summed from the left, each area gets
  \<open>max 1 (round (normalizedWeight * targetTotal))\<close>, and the total is the sum of what
  was given out. The argument is \<open>jdData.competency_areas || []\<close>, a list.
\<close>

definition generateQuestionPlan :: "config \<Rightarrow> CompetencyArea list \<Rightarrow> QuestionPlan" where
  "generateQuestionPlan cfg comps =
    (let totalWeight = foldl (\<lambda>sum c. sum + ca_weight c) 0 comps;
         targetTotal = maxQuestions cfg;
         plannedCompetencies =
           map (\<lambda>comp.
                 let normalizedWeight =
                       (if totalWeight > 0 then ca_weight comp / totalWeight
                        else 1 / real (length comps));
                     plannedQuestions =
                       max 1 (Math_round (normalizedWeight * real_of_int targetTotal))
                 in \<lparr> pc_name = ca_name comp, pc_weight = ca_weight comp,
                      planned_questions = plannedQuestions,
                      skills_to_cover = ca_skills comp \<rparr>) comps;
         actualTotal = foldl (\<lambda>sum c. sum + planned_questions c) 0 plannedCompetencies
     in \<lparr> competencies = plannedCompetencies,
          total_planned_questions = actualTotal,
          estimated_duration_minutes = actualTotal * 4 \<rparr>)"


section \<open>Evaluation and the decision engine\<close>

datatype FollowUpType = clarify | probe

datatype Suggestion = suggest_clarify | suggest_probe | suggest_none

record EvaluationResult =
  relevance :: real
  depth :: real
  accuracy :: real
  examples :: real
  communication :: real
  overall_score :: real
  reasoning :: string
  suggested_follow_up :: Suggestion
  key_points_covered :: "string list"
  missed_opportunities :: "string list"

datatype Action = follow_up | next_question | next_competency | end_interview

record NextAction =
  action :: Action
  followUpType :: "FollowUpType option"

definition determineNextAction :: "EvaluationResult \<Rightarrow> int \<Rightarrow> int \<Rightarrow> NextAction" where
  "determineNextAction evaluation currentDepth maxDepth =
    (let score = overall_score evaluation;
         suggested = suggested_follow_up evaluation
     in if score \<ge> 4 \<or> currentDepth \<ge> maxDepth
        then \<lparr> action = next_question, followUpType = None \<rparr>
        else if score \<le> 2 \<and> currentDepth < maxDepth
        then \<lparr> action = follow_up, followUpType = Some clarify \<rparr>
        else if score = 3 \<and> currentDepth < maxDepth \<and> suggested = suggest_probe
        then \<lparr> action = follow_up, followUpType = Some probe \<rparr>
        else \<lparr> action = next_question, followUpType = None \<rparr>)"

text \<open>The stand-in evaluation of the local fallback mode, from the answer's length.\<close>

definition getMockEvaluation :: "string \<Rightarrow> EvaluationResult" where
  "getMockEvaluation answer =
    (let len = int (length answer);
         baseScore = (if len > 200 then 4 else if len > 100 then 3 else (2::int))
     in \<lparr> relevance = real_of_int baseScore, depth = real_of_int baseScore,
          accuracy = real_of_int baseScore,
          examples = real_of_int (max 1 (baseScore - 1)),
          communication = real_of_int baseScore,
          overall_score = real_of_int baseScore,
          reasoning = ''Mock evaluation based on answer length.'',
          suggested_follow_up =
            (if baseScore \<le> 2 then suggest_clarify
             else if baseScore = 3 then suggest_probe else suggest_none),
          key_points_covered = [''Some relevant points''],
          missed_opportunities = [] \<rparr>)"

text \<open>
  The normalization step of \<open>evaluateResponse\<close>, applied to the object the gateway
  returned: one assignment, to \<open>overall_score\<close>.
\<close>

definition normalizeScores :: "EvaluationResult \<Rightarrow> EvaluationResult" where
  "normalizeScores result = result\<lparr> overall_score := max 1 (min 5 (overall_score result)) \<rparr>"


section \<open>Generation gateway\<close>

text \<open>
  A thrown JavaScript \<open>Error\<close> is a value \<open>Error message\<close>; a \<open>TypeError\<close> is
  what reading a property of \<open>undefined\<close> raises. A function that can throw returns
  \<open>error + 'a\<close>, \<open>Inl\<close> being the exception.
\<close>

datatype error = Error string | TypeError string

text \<open>
  What one \<open>fetch\<close> of the backend can do: raise (unreachable, timed out, body not
  readable), answer with a status that is not ok, or deliver the generated text.
\<close>

datatype Response = FetchThrows string | HttpStatus nat string | Payload string

fun show_nat :: "nat \<Rightarrow> string" where
  "show_nat n =
    (if n < 10 then [''0123456789'' ! n]
     else show_nat (n div 10) @ [''0123456789'' ! (n mod 10)])"

declare show_nat.simps [simp del]

definition show_int :: "int \<Rightarrow> string" where
  "show_int i = (if i < 0 then ''-'' @ show_nat (nat (- i)) else show_nat (nat i))"

text \<open>
  The backend is a sequence of responses, the \<open>k\<close>-th fetch of the process getting
  \<open>backend k\<close>; every function that calls it takes the number of fetches made so far
  and returns the new number with its result.

  \<open>generateCompletion\<close>: the retry loop, from \<open>attempt\<close> with \<open>lastError\<close>.
\<close>

function completionLoop ::
  "config \<Rightarrow> (nat \<Rightarrow> Response) \<Rightarrow> int \<Rightarrow> string option \<Rightarrow> nat \<Rightarrow> (error + string) \<times> nat" where
  "completionLoop cfg backend attempt lastError calls =
    (if attempt < maxRetries cfg then
       (case backend calls of
          Payload text \<Rightarrow> (Inr text, Suc calls)
        | HttpStatus status statusText \<Rightarrow>
            completionLoop cfg backend (attempt + 1)
              (Some (''Ollama returned '' @ show_nat status @ '': '' @ statusText)) (Suc calls)
        | FetchThrows message \<Rightarrow>
            completionLoop cfg backend (attempt + 1) (Some message) (Suc calls))
     else
       (Inl (Error (''Ollama failed after '' @ show_int (maxRetries cfg) @ '' attempts: '' @
                    (case lastError of None \<Rightarrow> ''undefined'' | Some message \<Rightarrow> message))),
        calls))"
  by pat_completeness auto
termination
  by (relation "measure (\<lambda>(cfg, backend, attempt, lastError, calls). nat (maxRetries cfg - attempt))")
     auto

declare completionLoop.simps [simp del]

definition generateCompletion ::
  "config \<Rightarrow> (nat \<Rightarrow> Response) \<Rightarrow> nat \<Rightarrow> (error + string) \<times> nat" where
  "generateCompletion cfg backend calls = completionLoop cfg backend 0 None calls"

text \<open>
  \<open>generateJSON\<close>: up to 3 attempts, each a whole \<open>generateCompletion\<close> followed by
  \<open>JSON.parse\<close>, which is the parameter \<open>parse\<close> (\<open>Inl\<close> its error message). Whatever
  an attempt raised is caught and the loop goes on.
\<close>

definition errorMessage :: "error \<Rightarrow> string" where
  "errorMessage e = (case e of Error m \<Rightarrow> m | TypeError m \<Rightarrow> m)"

function jsonLoop ::
  "config \<Rightarrow> (string \<Rightarrow> string + 'a) \<Rightarrow> (nat \<Rightarrow> Response) \<Rightarrow> nat \<Rightarrow> string option \<Rightarrow> nat
   \<Rightarrow> (error + 'a) \<times> nat" where
  "jsonLoop cfg parse backend attempt lastError calls =
    (if attempt < 3 then
       (case generateCompletion cfg backend calls of
          (Inl e, calls') \<Rightarrow>
            jsonLoop cfg parse backend (attempt + 1) (Some (errorMessage e)) calls'
        | (Inr response, calls') \<Rightarrow>
            (case parse response of
               Inr parsed \<Rightarrow> (Inr parsed, calls')
             | Inl message \<Rightarrow> jsonLoop cfg parse backend (attempt + 1) (Some message) calls'))
     else
       (Inl (Error (''Failed to get valid JSON from Ollama: '' @
                    (case lastError of None \<Rightarrow> ''undefined'' | Some message \<Rightarrow> message))),
        calls))"
  by pat_completeness auto
termination
  by (relation "measure (\<lambda>(cfg, parse, backend, attempt, lastError, calls). 3 - attempt)") auto

declare jsonLoop.simps [simp del]

definition generateJSON ::
  "config \<Rightarrow> (string \<Rightarrow> string + 'a) \<Rightarrow> (nat \<Rightarrow> Response) \<Rightarrow> nat \<Rightarrow> (error + 'a) \<times> nat" where
  "generateJSON cfg parse backend calls = jsonLoop cfg parse backend 0 None calls"

text \<open>The message the \<open>catch\<close> block of the retry loop records for a failed fetch.\<close>

definition failureMessage :: "Response \<Rightarrow> string" where
  "failureMessage r =
    (case r of FetchThrows message \<Rightarrow> message
     | HttpStatus status statusText \<Rightarrow> ''Ollama returned '' @ show_nat status @ '': '' @ statusText
     | Payload text \<Rightarrow> [])"

definition isPayload :: "Response \<Rightarrow> bool" where
  "isPayload r = (case r of Payload text \<Rightarrow> True | _ \<Rightarrow> False)"

text \<open>
  \<open>evaluateResponse\<close>. The question, the competency and the expected topics only go
  into the prompt; the answer also decides the stand-in evaluation of the mock mode.
\<close>

definition evaluateResponse ::
  "config \<Rightarrow> (string \<Rightarrow> string + EvaluationResult) \<Rightarrow> (nat \<Rightarrow> Response) \<Rightarrow> string \<Rightarrow> nat
   \<Rightarrow> (error + EvaluationResult) \<times> nat" where
  "evaluateResponse cfg parseEvaluation backend answer calls =
    (if mockAiServices cfg then (Inr (getMockEvaluation answer), calls)
     else (case generateJSON cfg parseEvaluation backend calls of
             (Inl e, calls') \<Rightarrow> (Inl e, calls')
           | (Inr result, calls') \<Rightarrow> (Inr (normalizeScores result), calls')))"

section \<open>Records of the store\<close>

datatype SessionStatus =
  S_created | S_cv_uploaded | S_jd_submitted | S_scored | S_interviewing | S_completed | S_expired

datatype InterviewStatus = I_pending | I_in_progress | I_completed | I_cancelled

datatype CompetencyStatus = C_pending | C_in_progress | C_completed

record Session =
  s_id :: nat
  s_uuid :: string
  s_status :: SessionStatus
  expires_at :: int

text \<open>Of the parsed CV only the prompts read anything; of the parsed JD the engine
  reads the competency areas.\<close>

record ParsedCVData =
  cv_technical_skills :: "string list"

record ParsedJDData =
  jd_title :: string
  competency_areas :: "CompetencyArea list"

record CV =
  cv_session_id :: nat
  cv_parsed_data :: "ParsedCVData option"

record JobDescription =
  jd_session_id :: nat
  jd_parsed_data :: "ParsedJDData option"

record CompetencyState =
  status :: CompetencyStatus
  questions_asked :: int
  current_depth :: int
  avg_score :: real

text \<open>\<open>InterviewState.competencies\<close> is an object keyed by competency name: an
  association list in insertion order.\<close>

record InterviewState =
  st_competencies :: "(string \<times> CompetencyState) list"
  total_questions :: int
  estimated_remaining :: int
  current_competency :: string

record Interview =
  i_id :: nat
  i_session_id :: nat
  i_status :: InterviewStatus
  question_plan :: "QuestionPlan option"
  interview_state :: "InterviewState option"
  started_at :: "int option"
  completed_at :: "int option"
  created_at :: int

record Question =
  q_id :: nat
  q_interview_id :: nat
  parent_id :: "nat option"
  sequence_num :: int
  q_competency :: string
  question_text :: string
  depth_level :: int

record AnswerEvaluation =
  ae_relevance :: real
  ae_depth :: real
  ae_accuracy :: real
  ae_examples :: real
  ae_communication :: real
  ae_reasoning :: string
  ae_overall_score :: real
  ae_suggested_follow_up :: "FollowUpType option"

record Answer =
  a_id :: nat
  a_question_id :: nat
  answer_text :: string
  response_time_ms :: "int option"
  evaluation :: AnswerEvaluation
  quality_score :: int

text \<open>
  The world an operation runs in: the tables, the next value of each auto-increment key,
  and the number of fetches the backend has served.
\<close>

record world =
  sessions :: "Session list"
  cvs :: "CV list"
  jds :: "JobDescription list"
  interviews :: "Interview list"
  questions :: "Question list"
  answers :: "Answer list"
  next_interview_id :: nat
  next_question_id :: nat
  next_answer_id :: nat
  fetches :: nat

record GeneratedQuestion =
  gq_question_text :: string
  gq_competency :: string
  expected_topics :: "string list"
  gq_type :: string
  follow_up_type :: "FollowUpType option"

text \<open>What the engine is given from outside: the backend and \<open>JSON.parse\<close> at the two
  result types it is used at (the source casts the parsed value to the type and checks
  nothing more).\<close>

record env =
  env_backend :: "nat \<Rightarrow> Response"
  env_parseEvaluation :: "string \<Rightarrow> string + EvaluationResult"
  env_parseQuestion :: "string \<Rightarrow> string + GeneratedQuestion"

section \<open>Question generation\<close>

definition mockQuestions :: "(string \<times> string list) list" where
  "mockQuestions =
    [(''Frontend'',
      [''Tell me about a complex React component you built. What were the main challenges?'',
       ''How do you approach state management in large applications?'']),
     (''Backend'',
      [''Describe a time when you had to optimize a slow API endpoint.'',
       ''How do you design APIs for scalability?'']),
     (''DevOps'',
      [''How have you used Docker in your development workflow?'',
       ''Tell me about your experience with CI/CD pipelines.'']),
     (''Soft Skills'',
      [''Tell me about a time when you had to mentor a junior developer.'',
       ''How do you handle disagreements in code reviews?''])]"

text \<open>
  Reading \<open>competency.name\<close> when the competency is \<open>undefined\<close> raises a
  \<open>TypeError\<close> (the text of its message is the engine's). Every list of the table has two
  entries and the question number is never negative, so the index is in range.
\<close>

definition undefinedRead :: error where
  "undefinedRead = TypeError ''Cannot read properties of undefined''"

definition getMockQuestion :: "CompetencyArea option \<Rightarrow> int \<Rightarrow> error + GeneratedQuestion" where
  "getMockQuestion competency questionNumber =
    (case competency of
       None \<Rightarrow> Inl undefinedRead
     | Some area \<Rightarrow>
         (let categoryQuestions =
                (case map_of mockQuestions (ca_name area) of
                   Some qs \<Rightarrow> qs
                 | None \<Rightarrow> snd (mockQuestions ! 1));
              questionText =
                categoryQuestions ! nat (questionNumber mod int (length categoryQuestions))
          in Inr \<lparr> gq_question_text = questionText, gq_competency = ca_name area,
                   expected_topics = take 3 (ca_skills area), gq_type = ''behavioral'',
                   follow_up_type = None \<rparr>))"

text \<open>The depth passed in is a depth level plus one, never negative.\<close>

definition getMockFollowUp :: "string \<Rightarrow> FollowUpType \<Rightarrow> int \<Rightarrow> GeneratedQuestion" where
  "getMockFollowUp competency fut depth' =
    (let clarifyQuestions =
           [''Could you give me a specific example of that?'',
            ''Walk me through the steps you took.'',
            ''What was the specific outcome?''];
         probeQuestions =
           [''How would you approach it differently today?'',
            ''What were the trade-offs you considered?'',
            ''How did you measure success?''];
         qs = (if fut = clarify then clarifyQuestions else probeQuestions)
     in \<lparr> gq_question_text = qs ! nat (depth' mod int (length qs)),
          gq_competency = competency, expected_topics = [], gq_type = ''follow_up'',
          follow_up_type = Some fut \<rparr>)"

text \<open>
  \<open>generateQuestion\<close>: outside the mock mode the prompt is built first, and building it
  reads \<open>competency.name\<close>.
\<close>

definition generateQuestion ::
  "config \<Rightarrow> env \<Rightarrow> CompetencyArea option \<Rightarrow> int \<Rightarrow> nat \<Rightarrow> (error + GeneratedQuestion) \<times> nat" where
  "generateQuestion cfg e competency questionNumber calls =
    (if mockAiServices cfg then (getMockQuestion competency questionNumber, calls)
     else (case competency of
             None \<Rightarrow> (Inl undefinedRead, calls)
           | Some area \<Rightarrow> generateJSON cfg (env_parseQuestion e) (env_backend e) calls))"

definition generateFollowUp ::
  "config \<Rightarrow> env \<Rightarrow> string \<Rightarrow> FollowUpType \<Rightarrow> int \<Rightarrow> nat \<Rightarrow> (error + GeneratedQuestion) \<times> nat" where
  "generateFollowUp cfg e competency fut depth' calls =
    (if mockAiServices cfg then (Inr (getMockFollowUp competency fut depth'), calls)
     else generateJSON cfg (env_parseQuestion e) (env_backend e) calls)"

section \<open>Interview state\<close>

definition initializeInterviewState :: "QuestionPlan \<Rightarrow> InterviewState" where
  "initializeInterviewState questionPlan =
    (let comps =
           foldl (\<lambda>m planned. AList.update (pc_name planned)
                    \<lparr> status = C_pending, questions_asked = 0, current_depth = 0, avg_score = 0 \<rparr> m)
                 [] (competencies questionPlan);
         firstCompetency =
           (case competencies questionPlan of [] \<Rightarrow> [] | first # rest \<Rightarrow> pc_name first);
         comps' =
           (if firstCompetency \<noteq> []
            then AList.map_entry firstCompetency (\<lambda>c. c\<lparr> status := C_in_progress \<rparr>) comps
            else comps)
     in \<lparr> st_competencies = comps', total_questions = 0,
          estimated_remaining = total_planned_questions questionPlan,
          current_competency = firstCompetency \<rparr>)"

text \<open>A write through \<open>state.competencies[name]\<close>, guarded by \<open>if (compState)\<close>.\<close>

definition updateCompetency ::
  "string \<Rightarrow> (CompetencyState \<Rightarrow> CompetencyState) \<Rightarrow> InterviewState \<Rightarrow> InterviewState" where
  "updateCompetency name f state =
    state\<lparr> st_competencies := AList.map_entry name f (st_competencies state) \<rparr>"

section \<open>Store operations\<close>

definition findSession :: "world \<Rightarrow> string \<Rightarrow> Session option" where
  "findSession w uuid = find (\<lambda>s. s_uuid s = uuid) (sessions w)"

definition parsedCV :: "world \<Rightarrow> nat \<Rightarrow> ParsedCVData option" where
  "parsedCV w sid =
    (case find (\<lambda>c. cv_session_id c = sid) (cvs w) of None \<Rightarrow> None | Some c \<Rightarrow> cv_parsed_data c)"

definition parsedJD :: "world \<Rightarrow> nat \<Rightarrow> ParsedJDData option" where
  "parsedJD w sid =
    (case find (\<lambda>j. jd_session_id j = sid) (jds w) of None \<Rightarrow> None | Some j \<Rightarrow> jd_parsed_data j)"

definition updateSessionStatus :: "string \<Rightarrow> SessionStatus \<Rightarrow> world \<Rightarrow> world" where
  "updateSessionStatus uuid st w =
    w\<lparr> sessions := map (\<lambda>s. if s_uuid s = uuid then s\<lparr> s_status := st \<rparr> else s) (sessions w) \<rparr>"

definition updateInterview :: "nat \<Rightarrow> (Interview \<Rightarrow> Interview) \<Rightarrow> world \<Rightarrow> world" where
  "updateInterview iid f w =
    w\<lparr> interviews := map (\<lambda>i. if i_id i = iid then f i else i) (interviews w) \<rparr>"

text \<open>Destroying an interview deletes its questions and their answers with it (the
  associations are declared \<open>onDelete: CASCADE\<close>).\<close>

definition destroyInterview :: "Interview \<Rightarrow> world \<Rightarrow> world" where
  "destroyInterview existing w =
    (let gone = map q_id (filter (\<lambda>q. q_interview_id q = i_id existing) (questions w))
     in w\<lparr> interviews := filter (\<lambda>i. i_id i \<noteq> i_id existing) (interviews w),
           questions := filter (\<lambda>q. q_interview_id q \<noteq> i_id existing) (questions w),
           answers := filter (\<lambda>a. a_question_id a \<notin> set gone) (answers w) \<rparr>)"

definition countQuestions :: "world \<Rightarrow> nat \<Rightarrow> int" where
  "countQuestions w iid = int (length (filter (\<lambda>q. q_interview_id q = iid) (questions w)))"

definition createQuestion :: "Question \<Rightarrow> world \<Rightarrow> world" where
  "createQuestion q w =
    w\<lparr> questions := questions w @ [q], next_question_id := Suc (next_question_id w) \<rparr>"

section \<open>Starting an interview\<close>

record QuestionView =
  qv_id :: nat
  qv_text :: string
  qv_competency :: string

record Progress =
  current :: int
  estimated_total :: int
  pr_competency :: string

record StartResult =
  sr_interviewId :: nat
  sr_question :: QuestionView
  sr_progress :: Progress

definition startInterview ::
  "config \<Rightarrow> env \<Rightarrow> string \<Rightarrow> int \<Rightarrow> world \<Rightarrow> (error + StartResult) \<times> world" where
  "startInterview cfg e sessionUuid now w =
    (case findSession w sessionUuid of
       None \<Rightarrow> (Inl (Error ''Session not found''), w)
     | Some session \<Rightarrow>
        (case parsedCV w (s_id session) of
           None \<Rightarrow> (Inl (Error ''CV and JD must be parsed before starting interview''), w)
         | Some cvData \<Rightarrow>
        (case parsedJD w (s_id session) of
           None \<Rightarrow> (Inl (Error ''CV and JD must be parsed before starting interview''), w)
         | Some jdData \<Rightarrow>
            (let w1 = (case find (\<lambda>i. i_session_id i = s_id session) (interviews w) of
                         None \<Rightarrow> w
                       | Some existingInterview \<Rightarrow> destroyInterview existingInterview w);
                 questionPlan = generateQuestionPlan cfg (competency_areas jdData);
                 interviewState = initializeInterviewState questionPlan;
                 interview =
                   \<lparr> i_id = next_interview_id w1, i_session_id = s_id session,
                     i_status = I_in_progress, question_plan = Some questionPlan,
                     interview_state = Some interviewState, started_at = Some now,
                     completed_at = None, created_at = now \<rparr>;
                 w2 = w1\<lparr> interviews := interviews w1 @ [interview],
                          next_interview_id := Suc (next_interview_id w1) \<rparr>;
                 firstCompetency =
                   (case competency_areas jdData of [] \<Rightarrow> None | first # rest \<Rightarrow> Some first)
             in (case generateQuestion cfg e firstCompetency 1 (fetches w2) of
                   (Inl err, calls) \<Rightarrow> (Inl err, w2\<lparr> fetches := calls \<rparr>)
                 | (Inr generatedQuestion, calls) \<Rightarrow>
                    (let question =
                           \<lparr> q_id = next_question_id w2, q_interview_id = i_id interview,
                             parent_id = None, sequence_num = 1,
                             q_competency = gq_competency generatedQuestion,
                             question_text = gq_question_text generatedQuestion,
                             depth_level = 0 \<rparr>;
                         w3 = createQuestion question (w2\<lparr> fetches := calls \<rparr>);
                         w4 = updateSessionStatus sessionUuid S_interviewing w3
                     in (case firstCompetency of
                           None \<Rightarrow> (Inl undefinedRead, w4)
                         | Some area \<Rightarrow>
                            (Inr \<lparr> sr_interviewId = i_id interview,
                                   sr_question =
                                     \<lparr> qv_id = q_id question, qv_text = question_text question,
                                       qv_competency = q_competency question \<rparr>,
                                   sr_progress =
                                     \<lparr> current = 1,
                                       estimated_total = total_planned_questions questionPlan,
                                       pr_competency = ca_name area \<rparr> \<rparr>,
                             w4))))))))"

section \<open>Processing an answer\<close>

record NextQuestionView =
  nq_id :: nat
  nq_text :: string
  nq_competency :: string
  isFollowUp :: bool
  nq_depth :: int

record AnswerResult =
  ar_evaluation :: AnswerEvaluation
  nextQuestion :: "NextQuestionView option"
  ar_progress :: Progress
  isComplete :: bool

definition toAnswerEvaluation :: "EvaluationResult \<Rightarrow> AnswerEvaluation" where
  "toAnswerEvaluation evalResult =
    \<lparr> ae_relevance = relevance evalResult, ae_depth = depth evalResult,
      ae_accuracy = accuracy evalResult, ae_examples = examples evalResult,
      ae_communication = communication evalResult, ae_reasoning = reasoning evalResult,
      ae_overall_score = overall_score evalResult,
      ae_suggested_follow_up =
        (case suggested_follow_up evalResult of
           suggest_none \<Rightarrow> None
         | suggest_clarify \<Rightarrow> Some clarify
         | suggest_probe \<Rightarrow> Some probe) \<rparr>"

text \<open>\<open>Array.prototype.findIndex\<close>: the first index that satisfies, or \<open>-1\<close>.\<close>

fun findIndex :: "('a \<Rightarrow> bool) \<Rightarrow> 'a list \<Rightarrow> int" where
  "findIndex P [] = - 1"
| "findIndex P (x # xs) =
    (if P x then 0 else (let r = findIndex P xs in if r < 0 then - 1 else r + 1))"

text \<open>The statistics of the answered question's competency, when the state has it.\<close>

definition recordScore :: "real \<Rightarrow> CompetencyState \<Rightarrow> CompetencyState" where
  "recordScore score c =
    (let asked = questions_asked c + 1
     in c\<lparr> questions_asked := asked,
           avg_score := (avg_score c * real_of_int (asked - 1) + score) / real_of_int asked \<rparr>)"

text \<open>Both places that end the interview return the same object.\<close>

definition completeResult :: "AnswerEvaluation \<Rightarrow> int \<Rightarrow> Question \<Rightarrow> AnswerResult" where
  "completeResult ev questionsAsked question =
    \<lparr> ar_evaluation = ev, nextQuestion = None,
      ar_progress = \<lparr> current = questionsAsked, estimated_total = questionsAsked,
                      pr_competency = q_competency question \<rparr>,
      isComplete = True \<rparr>"

text \<open>
  The end of a turn that goes on: \<open>estimated_remaining\<close> goes down, the state is saved,
  and the result is built, reading the plan once more.
\<close>

definition finishTurn ::
  "Interview \<Rightarrow> AnswerEvaluation \<Rightarrow> NextQuestionView \<Rightarrow> InterviewState \<Rightarrow> int \<Rightarrow> world
   \<Rightarrow> (error + AnswerResult) \<times> world" where
  "finishTurn interview ev nextQ state questionsAsked w =
    (let state' = state\<lparr> estimated_remaining := max 0 (estimated_remaining state - 1) \<rparr>;
         w' = updateInterview (i_id interview) (\<lambda>i. i\<lparr> interview_state := Some state' \<rparr>) w
     in (case question_plan interview of
           None \<Rightarrow> (Inl undefinedRead, w')
         | Some plan \<Rightarrow>
            (Inr \<lparr> ar_evaluation = ev, nextQuestion = Some nextQ,
                   ar_progress = \<lparr> current = questionsAsked + 1,
                                   estimated_total = total_planned_questions plan,
                                   pr_competency = nq_competency nextQ \<rparr>,
                   isComplete = False \<rparr>, w')))"

text \<open>The branch \<open>nextAction.action === 'follow_up'\<close>.\<close>

definition followUpStep ::
  "config \<Rightarrow> env \<Rightarrow> Interview \<Rightarrow> Question \<Rightarrow> FollowUpType \<Rightarrow> AnswerEvaluation \<Rightarrow> InterviewState
   \<Rightarrow> int \<Rightarrow> world \<Rightarrow> (error + AnswerResult) \<times> world" where
  "followUpStep cfg e interview question fut ev state questionsAsked w =
    (case generateFollowUp cfg e (q_competency question) fut (depth_level question + 1) (fetches w) of
       (Inl err, calls) \<Rightarrow> (Inl err, w\<lparr> fetches := calls \<rparr>)
     | (Inr followUp, calls) \<Rightarrow>
        (let newQuestion =
               \<lparr> q_id = next_question_id w, q_interview_id = i_id interview,
                 parent_id = Some (q_id question), sequence_num = questionsAsked + 1,
                 q_competency = q_competency question,
                 question_text = gq_question_text followUp,
                 depth_level = depth_level question + 1 \<rparr>;
             w1 = createQuestion newQuestion (w\<lparr> fetches := calls \<rparr>);
             nextQ = \<lparr> nq_id = q_id newQuestion, nq_text = question_text newQuestion,
                       nq_competency = q_competency newQuestion, isFollowUp = True,
                       nq_depth = depth_level newQuestion \<rparr>;
             state1 = updateCompetency (q_competency question)
                        (\<lambda>c. c\<lparr> current_depth := depth_level newQuestion \<rparr>) state
         in finishTurn interview ev nextQ state1 questionsAsked w1))"

text \<open>
  The other branch: another root question in the same competency, or the next
  competency of the plan, or the end of the interview when the plan has no more.
  \<open>rootQuestionStep\<close> is its common end, from \<open>// Generate new question\<close> on.
\<close>

definition rootQuestionStep ::
  "config \<Rightarrow> env \<Rightarrow> Interview \<Rightarrow> AnswerEvaluation \<Rightarrow> CompetencyArea option \<Rightarrow> InterviewState
   \<Rightarrow> int \<Rightarrow> world \<Rightarrow> (error + AnswerResult) \<times> world" where
  "rootQuestionStep cfg e interview ev targetCompetency state questionsAsked w =
    (case generateQuestion cfg e targetCompetency (questionsAsked + 1) (fetches w) of
       (Inl err, calls) \<Rightarrow> (Inl err, w\<lparr> fetches := calls \<rparr>)
     | (Inr generated, calls) \<Rightarrow>
        (case targetCompetency of
           None \<Rightarrow> (Inl undefinedRead, w\<lparr> fetches := calls \<rparr>)
         | Some target \<Rightarrow>
            (let newQuestion =
                   \<lparr> q_id = next_question_id w, q_interview_id = i_id interview,
                     parent_id = None, sequence_num = questionsAsked + 1,
                     q_competency = ca_name target,
                     question_text = gq_question_text generated,
                     depth_level = 0 \<rparr>;
                 w1 = createQuestion newQuestion (w\<lparr> fetches := calls \<rparr>);
                 nextQ = \<lparr> nq_id = q_id newQuestion, nq_text = question_text newQuestion,
                           nq_competency = q_competency newQuestion,
                           isFollowUp = False, nq_depth = 0 \<rparr>
             in finishTurn interview ev nextQ state questionsAsked w1)))"

definition advanceStep ::
  "config \<Rightarrow> env \<Rightarrow> int \<Rightarrow> Interview \<Rightarrow> Question \<Rightarrow> ParsedJDData \<Rightarrow> AnswerEvaluation
   \<Rightarrow> InterviewState \<Rightarrow> int \<Rightarrow> world \<Rightarrow> (error + AnswerResult) \<times> world" where
  "advanceStep cfg e now interview question jdData ev state questionsAsked w =
    (case question_plan interview of
       None \<Rightarrow> (Inl undefinedRead, w)
     | Some plan \<Rightarrow>
        (let currentCompIdx =
               findIndex (\<lambda>c. pc_name c = q_competency question) (competencies plan);
             currentComp =
               (if 0 \<le> currentCompIdx then Some (competencies plan ! nat currentCompIdx) else None);
             questionsInComp =
               int (length (filter (\<lambda>q. q_interview_id q = i_id interview
                                        \<and> q_competency q = q_competency question
                                        \<and> depth_level q = 0) (questions w)))
         in if (case currentComp of
                  None \<Rightarrow> False
                | Some cc \<Rightarrow> questionsInComp < planned_questions cc)
            then rootQuestionStep cfg e interview ev
                   (find (\<lambda>c. ca_name c = q_competency question) (competency_areas jdData))
                   state questionsAsked w
            else
             (let state1 = updateCompetency (q_competency question)
                             (\<lambda>c. c\<lparr> status := C_completed, current_depth := 0 \<rparr>) state;
                  nextCompIdx = currentCompIdx + 1
              in if nextCompIdx < int (length (competencies plan))
                 then
                  (let nextComp = competencies plan ! nat nextCompIdx;
                       targetCompetency =
                         find (\<lambda>c. ca_name c = pc_name nextComp) (competency_areas jdData);
                       state2 = updateCompetency (pc_name nextComp)
                                  (\<lambda>c. c\<lparr> status := C_in_progress \<rparr>)
                                  (state1\<lparr> current_competency := pc_name nextComp \<rparr>)
                   in rootQuestionStep cfg e interview ev targetCompetency state2 questionsAsked w)
                 else (Inr (completeResult ev questionsAsked question),
                       updateInterview (i_id interview)
                         (\<lambda>i. i\<lparr> i_status := I_completed, interview_state := Some state1,
                                 completed_at := Some now \<rparr>) w))))"

text \<open>
  What follows the evaluation: the answer is stored, the state is updated in memory, the
  action is decided, and the interview ends or goes on. The model of Answer validates
  \<open>quality_score\<close> to lie between 1 and 5; the rounded overall score does, being
  clamped by \<open>evaluateResponse\<close> or one of 2, 3, 4 in the mock mode, so that
  \<open>Answer.create\<close> does not raise.
\<close>

definition recordAnswer ::
  "config \<Rightarrow> env \<Rightarrow> string \<Rightarrow> int \<Rightarrow> Interview \<Rightarrow> Question \<Rightarrow> ParsedJDData \<Rightarrow> string
   \<Rightarrow> int option \<Rightarrow> EvaluationResult \<Rightarrow> world \<Rightarrow> (error + AnswerResult) \<times> world" where
  "recordAnswer cfg e sessionUuid now interview question jdData answerText responseTimeMs evalResult w =
    (let ev = toAnswerEvaluation evalResult;
         answer = \<lparr> a_id = next_answer_id w, a_question_id = q_id question,
                    answer_text = answerText,
                    response_time_ms =
                      (case responseTimeMs of None \<Rightarrow> None
                       | Some t \<Rightarrow> if t = 0 then None else Some t),
                    evaluation = ev,
                    quality_score = Math_round (overall_score evalResult) \<rparr>;
         w1 = w\<lparr> answers := answers w @ [answer], next_answer_id := Suc (next_answer_id w) \<rparr>
     in (case interview_state interview of
           None \<Rightarrow> (Inl undefinedRead, w1)
         | Some state0 \<Rightarrow>
            (let state =
                   updateCompetency (q_competency question) (recordScore (overall_score evalResult))
                     (state0\<lparr> total_questions := total_questions state0 + 1 \<rparr>);
                 nextAction =
                   determineNextAction evalResult (depth_level question) (maxFollowUpDepth cfg);
                 questionsAsked = countQuestions w1 (i_id interview);
                 shouldEnd =
                   (questionsAsked \<ge> maxQuestions cfg
                    \<or> list_all (\<lambda>c. status c = C_completed) (map snd (st_competencies state)))
             in if shouldEnd
                then (Inr (completeResult ev questionsAsked question),
                      updateSessionStatus sessionUuid S_completed
                        (updateInterview (i_id interview)
                           (\<lambda>i. i\<lparr> i_status := I_completed, interview_state := Some state,
                                   completed_at := Some now \<rparr>) w1))
                else (case (action nextAction, followUpType nextAction) of
                        (follow_up, Some fut) \<Rightarrow>
                          followUpStep cfg e interview question fut ev state questionsAsked w1
                      | _ \<Rightarrow>
                          advanceStep cfg e now interview question jdData ev state
                            questionsAsked w1))))"

definition processAnswer ::
  "config \<Rightarrow> env \<Rightarrow> string \<Rightarrow> nat \<Rightarrow> string \<Rightarrow> int option \<Rightarrow> int \<Rightarrow> world
   \<Rightarrow> (error + AnswerResult) \<times> world" where
  "processAnswer cfg e sessionUuid questionId answerText responseTimeMs now w =
    (case findSession w sessionUuid of
       None \<Rightarrow> (Inl (Error ''Session not found''), w)
     | Some session \<Rightarrow>
        (case find (\<lambda>i. i_session_id i = s_id session \<and> i_status i = I_in_progress) (interviews w) of
           None \<Rightarrow> (Inl (Error ''No active interview found''), w)
         | Some interview \<Rightarrow>
            (case find (\<lambda>q. q_id q = questionId) (questions w) of
               None \<Rightarrow> (Inl (Error ''Question not found''), w)
             | Some question \<Rightarrow>
                if q_interview_id question \<noteq> i_id interview
                then (Inl (Error ''Question not found''), w)
                else
                (case parsedCV w (s_id session) of
                   None \<Rightarrow> (Inl (Error ''Session data not found''), w)
                 | Some cvData \<Rightarrow>
                (case parsedJD w (s_id session) of
                   None \<Rightarrow> (Inl (Error ''Session data not found''), w)
                 | Some jdData \<Rightarrow>
                    (case evaluateResponse cfg (env_parseEvaluation e) (env_backend e) answerText
                            (fetches w) of
                       (Inl err, calls) \<Rightarrow> (Inl err, w\<lparr> fetches := calls \<rparr>)
                     | (Inr evalResult, calls) \<Rightarrow>
                         recordAnswer cfg e sessionUuid now interview question jdData answerText
                           responseTimeMs evalResult (w\<lparr> fetches := calls \<rparr>)))))))"

section \<open>Finishing an interview\<close>

record FinishData =
  fd_interviewId :: nat
  fd_status :: string
  duration_minutes :: int
  fd_total_questions :: int
  fd_message :: string

text \<open>The response of the finish route: an error with its HTTP status and code, or the
  data of a success.\<close>

datatype FinishResponse = FinishError nat string | FinishOk FinishData

definition validateSession :: "string \<Rightarrow> int \<Rightarrow> world \<Rightarrow> Session option \<times> world" where
  "validateSession uuid now w =
    (case findSession w uuid of
       None \<Rightarrow> (None, w)
     | Some session \<Rightarrow>
        (if now > expires_at session
         then (None,
               if s_status session \<noteq> S_expired
               then w\<lparr> sessions := map (\<lambda>s. if s_id s = s_id session
                                              then s\<lparr> s_status := S_expired \<rparr> else s)
                                        (sessions w) \<rparr>
               else w)
         else (Some session, w)))"

text \<open>\<open>findOne\<close> with \<open>order: [['created_at', 'DESC']]\<close>: the interview created last.\<close>

definition latestInterview :: "world \<Rightarrow> nat \<Rightarrow> Interview option" where
  "latestInterview w sid =
    foldl (\<lambda>best i. case best of
                       None \<Rightarrow> Some i
                     | Some b \<Rightarrow> if created_at b < created_at i then Some i else Some b)
          None (filter (\<lambda>i. i_session_id i = sid) (interviews w))"

text \<open>
  The handler of \<open>POST /api/interview/finish\<close>, with the session uuid of the request
  body (empty when it is missing) and the clock of the request. An exception raised while
  the response is built is caught by the handler and answered with status 500, after the
  update has been made.
\<close>

definition finishInterview :: "string \<Rightarrow> int \<Rightarrow> world \<Rightarrow> FinishResponse \<times> world" where
  "finishInterview sessionUuid now w =
    (if sessionUuid = [] then (FinishError 400 ''MISSING_SESSION'', w)
     else (case validateSession sessionUuid now w of
             (None, w1) \<Rightarrow> (FinishError 401 ''INVALID_SESSION'', w1)
           | (Some session, w1) \<Rightarrow>
              (case findSession w1 sessionUuid of
                 None \<Rightarrow> (FinishError 404 ''SESSION_NOT_FOUND'', w1)
               | Some sessionRecord \<Rightarrow>
                  (case latestInterview w1 (s_id sessionRecord) of
                     None \<Rightarrow> (FinishError 404 ''NO_INTERVIEW'', w1)
                   | Some interview \<Rightarrow>
                      (let startedAt = (case started_at interview of
                                          Some t \<Rightarrow> t | None \<Rightarrow> created_at interview);
                           completedAt = now;
                           durationMs = completedAt - startedAt;
                           durationMinutes = Math_round (real_of_int durationMs / 1000 / 60);
                           w2 = (if i_status interview \<noteq> I_completed
                                 then updateSessionStatus sessionUuid S_completed
                                        (updateInterview (i_id interview)
                                           (\<lambda>i. i\<lparr> i_status := I_completed,
                                                   completed_at := Some completedAt \<rparr>) w1)
                                 else w1)
                       in (case interview_state interview of
                             None \<Rightarrow> (FinishError 500 ''FINISH_INTERVIEW_ERROR'', w2)
                           | Some state \<Rightarrow>
                              (if total_questions state \<noteq> 0
                               then (FinishOk
                                       \<lparr> fd_interviewId = i_id interview,
                                         fd_status = ''completed'',
                                         duration_minutes = durationMinutes,
                                         fd_total_questions = total_questions state,
                                         fd_message = ''Interview completed successfully. Summary generation available.'' \<rparr>,
                                     w2)
                               else (case question_plan interview of
                                       None \<Rightarrow> (FinishError 500 ''FINISH_INTERVIEW_ERROR'', w2)
                                     | Some plan \<Rightarrow>
                                        (FinishOk
                                           \<lparr> fd_interviewId = i_id interview,
                                             fd_status = ''completed'',
                                             duration_minutes = durationMinutes,
                                             fd_total_questions = total_planned_questions plan,
                                             fd_message = ''Interview completed successfully. Summary generation available.'' \<rparr>,
                                         w2)))))))))"

section \<open>The open question\<close>



section \<open>Runs and reachable worlds\<close>



text \<open>
  The worlds the engine can be in: it starts with no interview, and the three operations
  act on it, while the other services change sessions, CVs and job descriptions.
\<close>

inductive reachable :: "config \<Rightarrow> env \<Rightarrow> world \<Rightarrow> bool" for cfg :: config and e :: env where
  initial: "interviews w = [] \<Longrightarrow> questions w = [] \<Longrightarrow> answers w = [] \<Longrightarrow> reachable cfg e w"
| start: "reachable cfg e w \<Longrightarrow> startInterview cfg e uuid now w = (r, w') \<Longrightarrow> reachable cfg e w'"
| answer: "reachable cfg e w \<Longrightarrow> processAnswer cfg e uuid qid answerText rt now w = (r, w')
            \<Longrightarrow> reachable cfg e w'"
| finish: "reachable cfg e w \<Longrightarrow> finishInterview uuid now w = (fr, w') \<Longrightarrow> reachable cfg e w'"
| outside: "reachable cfg e w \<Longrightarrow> reachable cfg e (w\<lparr> sessions := ss, cvs := cs, jds := js \<rparr>)"

section \<open>Invariants and the shape of a step\<close>

text \<open>Interview ids are below the next id, no question belongs to an interview that is
  yet to be created, and a session has at most one interview.\<close>

definition wf :: "world \<Rightarrow> bool" where
  "wf w \<longleftrightarrow>
     (\<forall>i\<in>set (interviews w). i_id i < next_interview_id w) \<and>
     (\<forall>q\<in>set (questions w). q_interview_id q < next_interview_id w) \<and>
     distinct (map i_session_id (interviews w))"

definition bounded :: "config \<Rightarrow> world \<Rightarrow> bool" where
  "bounded cfg w \<longleftrightarrow> (\<forall>iid. countQuestions w iid \<le> maxQuestions cfg)"

definition shallow :: "config \<Rightarrow> world \<Rightarrow> bool" where
  "shallow cfg w \<longleftrightarrow> (\<forall>q\<in>set (questions w). depth_level q \<le> maxFollowUpDepth cfg)"


text \<open>What a step of \<open>processAnswer\<close> leaves alone, and the one question it may add.\<close>

definition stepShape :: "Interview \<Rightarrow> int \<Rightarrow> world \<Rightarrow> (error + AnswerResult) \<Rightarrow> world \<Rightarrow> bool" where
  "stepShape iv dq w r w' \<longleftrightarrow>
     next_interview_id w' = next_interview_id w \<and>
     map i_id (interviews w') = map i_id (interviews w) \<and>
     map i_session_id (interviews w') = map i_session_id (interviews w) \<and>
     map question_plan (interviews w') = map question_plan (interviews w) \<and>
     answers w' = answers w \<and>
     cvs w' = cvs w \<and> jds w' = jds w \<and> sessions w' = sessions w \<and>
     ((questions w' = questions w \<and> (\<forall>x. r = Inr x \<longrightarrow> isComplete x))
      \<or> (\<exists>q. questions w' = questions w @ [q] \<and> q_interview_id q = i_id iv
             \<and> depth_level q = dq
             \<and> map i_status (interviews w') = map i_status (interviews w)
             \<and> (\<forall>x. r = Inr x \<longrightarrow> \<not> isComplete x)))"

definition answerShape ::
  "config \<Rightarrow> Interview \<Rightarrow> Question \<Rightarrow> world \<Rightarrow> (error + AnswerResult) \<Rightarrow> world \<Rightarrow> bool" where
  "answerShape cfg iv qn w r w' \<longleftrightarrow>
     next_interview_id w' = next_interview_id w \<and>
     map i_id (interviews w') = map i_id (interviews w) \<and>
     map i_session_id (interviews w') = map i_session_id (interviews w) \<and>
     map question_plan (interviews w') = map question_plan (interviews w) \<and>
     cvs w' = cvs w \<and> jds w' = jds w \<and>
     map s_id (sessions w') = map s_id (sessions w) \<and>
     map s_uuid (sessions w') = map s_uuid (sessions w) \<and>
     ((questions w' = questions w \<and> (\<forall>x. r = Inr x \<longrightarrow> isComplete x))
      \<or> (\<exists>q. questions w' = questions w @ [q] \<and> q_interview_id q = i_id iv
             \<and> (depth_level q = 0 \<or>
                  (depth_level q = depth_level qn + 1 \<and> depth_level qn < maxFollowUpDepth cfg))
             \<and> countQuestions w (i_id iv) < maxQuestions cfg
             \<and> sessions w' = sessions w
             \<and> map i_status (interviews w') = map i_status (interviews w)
             \<and> (\<forall>x. r = Inr x \<longrightarrow> \<not> isComplete x)))"

definition processShape ::
  "config \<Rightarrow> string \<Rightarrow> nat \<Rightarrow> world \<Rightarrow> (error + AnswerResult) \<Rightarrow> world \<Rightarrow> bool" where
  "processShape cfg uuid qid w r w' \<longleftrightarrow>
     ((questions w' = questions w \<and> (\<forall>x. r = Inr x \<longrightarrow> isComplete x))
      \<or> (\<exists>q s iv qn. questions w' = questions w @ [q]
             \<and> findSession w uuid = Some s
             \<and> find (\<lambda>i. i_session_id i = s_id s \<and> i_status i = I_in_progress) (interviews w) = Some iv
             \<and> find (\<lambda>q. q_id q = qid) (questions w) = Some qn
             \<and> q_interview_id q = i_id iv
             \<and> (depth_level q = 0 \<or>
                  (depth_level q = depth_level qn + 1 \<and> depth_level qn < maxFollowUpDepth cfg))
             \<and> countQuestions w (i_id iv) < maxQuestions cfg
             \<and> sessions w' = sessions w
             \<and> map i_status (interviews w') = map i_status (interviews w)
             \<and> (\<forall>x. r = Inr x \<longrightarrow> \<not> isComplete x)))"

text \<open>The parts of \<open>startInterview\<close>, named: the world once the session's existing
  interview is destroyed, the record that is created, and the first competency area.\<close>

definition withoutExisting :: "world \<Rightarrow> nat \<Rightarrow> world" where
  "withoutExisting w sid =
    (case find (\<lambda>i. i_session_id i = sid) (interviews w) of
       None \<Rightarrow> w
     | Some existingInterview \<Rightarrow> destroyInterview existingInterview w)"

definition newInterview :: "config \<Rightarrow> int \<Rightarrow> nat \<Rightarrow> ParsedJDData \<Rightarrow> nat \<Rightarrow> Interview" where
  "newInterview cfg now sid jdData iid =
    \<lparr> i_id = iid, i_session_id = sid, i_status = I_in_progress,
      question_plan = Some (generateQuestionPlan cfg (competency_areas jdData)),
      interview_state =
        Some (initializeInterviewState (generateQuestionPlan cfg (competency_areas jdData))),
      started_at = Some now, completed_at = None, created_at = now \<rparr>"

definition firstArea :: "ParsedJDData \<Rightarrow> CompetencyArea option" where
  "firstArea jdData = (case competency_areas jdData of [] \<Rightarrow> None | first # rest \<Rightarrow> Some first)"


section \<open>Example inputs\<close>

definition defaultConfig :: config where
  "defaultConfig =
    \<lparr> maxFollowUpDepth = 3, maxQuestions = 15, mockAiServices = False, maxRetries = 3 \<rparr>"

definition unreachableBackend :: "nat \<Rightarrow> Response" where
  "unreachableBackend k = FetchThrows ''fetch failed''"

definition garbageBackend :: "nat \<Rightarrow> Response" where
  "garbageBackend k = Payload ''not json''"

definition rejectingParser :: "string \<Rightarrow> string + EvaluationResult" where
  "rejectingParser text = Inl ''Unexpected token o in JSON at position 1''"

definition skewedEvaluation :: EvaluationResult where
  "skewedEvaluation =
    \<lparr> relevance = 9, depth = 1, accuracy = 1, examples = 1, communication = 1,
      overall_score = 2, reasoning = ''r'', suggested_follow_up = suggest_none,
      key_points_covered = [], missed_opportunities = [] \<rparr>"




definition scenarioA :: "CompetencyArea list" where
  "scenarioA = [\<lparr> ca_name = ''A'', ca_weight = 0.5, ca_skills = [] \<rparr>,
                \<lparr> ca_name = ''B'', ca_weight = 0.5, ca_skills = [] \<rparr>]"

text \<open>A session with a parsed CV and a parsed job description, before any interview; the
  mock mode; and an environment whose backend is never reached.\<close>

definition mockConfig :: config where
  "mockConfig =
    \<lparr> maxFollowUpDepth = 3, maxQuestions = 15, mockAiServices = True, maxRetries = 3 \<rparr>"

definition rejectingQuestionParser :: "string \<Rightarrow> string + GeneratedQuestion" where
  "rejectingQuestionParser payload = Inl ''Unexpected token o in JSON at position 1''"

definition offlineEnv :: env where
  "offlineEnv = \<lparr> env_backend = unreachableBackend, env_parseEvaluation = rejectingParser,
                  env_parseQuestion = rejectingQuestionParser \<rparr>"

definition exampleSession :: "SessionStatus \<Rightarrow> Session" where
  "exampleSession st = \<lparr> s_id = 1, s_uuid = ''u'', s_status = st, expires_at = 1000000 \<rparr>"

definition freshWorld :: "CompetencyArea list \<Rightarrow> world" where
  "freshWorld areas =
    \<lparr> sessions = [exampleSession S_scored],
      cvs = [\<lparr> cv_session_id = 1, cv_parsed_data = Some \<lparr> cv_technical_skills = [] \<rparr> \<rparr>],
      jds = [\<lparr> jd_session_id = 1,
               jd_parsed_data = Some \<lparr> jd_title = ''Developer'', competency_areas = areas \<rparr> \<rparr>],
      interviews = [], questions = [], answers = [],
      next_interview_id = 1, next_question_id = 1, next_answer_id = 1, fetches = 0 \<rparr>"

text \<open>The same session after \<open>startInterview\<close>, and after a short answer to the first
  question, which brings a follow-up.\<close>

definition examplePlan :: QuestionPlan where
  "examplePlan =
    \<lparr> competencies =
        [\<lparr> pc_name = ''A'', pc_weight = 1 / 2, planned_questions = 8, skills_to_cover = [] \<rparr>,
         \<lparr> pc_name = ''B'', pc_weight = 1 / 2, planned_questions = 8, skills_to_cover = [] \<rparr>],
      total_planned_questions = 16, estimated_duration_minutes = 64 \<rparr>"

definition exampleState :: "int \<Rightarrow> int \<Rightarrow> real \<Rightarrow> int \<Rightarrow> InterviewState" where
  "exampleState asked depth' avg remaining =
    \<lparr> st_competencies =
        [(''A'', \<lparr> status = C_in_progress, questions_asked = asked, current_depth = depth',
                  avg_score = avg \<rparr>),
         (''B'', \<lparr> status = C_pending, questions_asked = 0, current_depth = 0, avg_score = 0 \<rparr>)],
      total_questions = asked, estimated_remaining = remaining, current_competency = ''A'' \<rparr>"

definition exampleInterview :: "InterviewStatus \<Rightarrow> InterviewState \<Rightarrow> int option \<Rightarrow> Interview" where
  "exampleInterview st state completed =
    \<lparr> i_id = 1, i_session_id = 1, i_status = st, question_plan = Some examplePlan,
      interview_state = Some state, started_at = Some 0, completed_at = completed,
      created_at = 0 \<rparr>"

definition question1 :: Question where
  "question1 =
    \<lparr> q_id = 1, q_interview_id = 1, parent_id = None, sequence_num = 1, q_competency = ''A'',
      question_text = ''How do you design APIs for scalability?'', depth_level = 0 \<rparr>"

definition question2 :: Question where
  "question2 =
    \<lparr> q_id = 2, q_interview_id = 1, parent_id = Some 1, sequence_num = 2, q_competency = ''A'',
      question_text = ''Walk me through the steps you took.'', depth_level = 1 \<rparr>"

definition answer1 :: Answer where
  "answer1 =
    \<lparr> a_id = 1, a_question_id = 1, answer_text = ''short'', response_time_ms = None,
      evaluation = toAnswerEvaluation (getMockEvaluation ''short''), quality_score = 2 \<rparr>"

definition startedWorld :: world where
  "startedWorld =
    (freshWorld scenarioA)
      \<lparr> sessions := [exampleSession S_interviewing],
        interviews := [exampleInterview I_in_progress (exampleState 0 0 0 16) None],
        questions := [question1], next_interview_id := 2, next_question_id := 2 \<rparr>"

definition answeredWorld :: world where
  "answeredWorld =
    startedWorld
      \<lparr> interviews := [exampleInterview I_in_progress (exampleState 1 1 2 15) None],
        questions := [question1, question2], answers := [answer1],
        next_question_id := 3, next_answer_id := 2 \<rparr>"

definition finishedWorld :: world where
  "finishedWorld =
    answeredWorld
      \<lparr> sessions := [exampleSession S_completed],
        interviews := [exampleInterview I_completed (exampleState 1 1 2 15) (Some 20)] \<rparr>"

section \<open>Properties\<close>

subsection \<open>Decision engine\<close>

text \<open>
  C1. For every score \<open>s\<close>, depth \<open>d\<close>, maximum depth and suggestion,
  \<open>determineNextAction\<close> follows the priority order: \<open>s \<ge> 4\<close> or \<open>d \<ge> maxDepth\<close>
  gives \<open>next_question\<close>; else \<open>s \<le> 2\<close> with \<open>d < maxDepth\<close> gives a follow-up of type
  clarify; else \<open>s = 3\<close> with \<open>d < maxDepth\<close> and a probe suggestion gives a follow-up
  of type probe; anything else gives \<open>next_question\<close>.
\<close>

theorem decision_priority_order:
  "(s \<ge> 4 \<or> d \<ge> maxDepth \<longrightarrow>
      determineNextAction (ev\<lparr>overall_score := s\<rparr>) d maxDepth
        = \<lparr> action = next_question, followUpType = None \<rparr>)
   \<and> (\<not> (s \<ge> 4 \<or> d \<ge> maxDepth) \<and> s \<le> 2 \<and> d < maxDepth \<longrightarrow>
      determineNextAction (ev\<lparr>overall_score := s\<rparr>) d maxDepth
        = \<lparr> action = follow_up, followUpType = Some clarify \<rparr>)
   \<and> (\<not> (s \<ge> 4 \<or> d \<ge> maxDepth) \<and> \<not> (s \<le> 2 \<and> d < maxDepth)
        \<and> s = 3 \<and> d < maxDepth \<and> suggested_follow_up ev = suggest_probe \<longrightarrow>
      determineNextAction (ev\<lparr>overall_score := s\<rparr>) d maxDepth
        = \<lparr> action = follow_up, followUpType = Some probe \<rparr>)
   \<and> (\<not> (s \<ge> 4 \<or> d \<ge> maxDepth) \<and> \<not> (s \<le> 2 \<and> d < maxDepth)
        \<and> \<not> (s = 3 \<and> d < maxDepth \<and> suggested_follow_up ev = suggest_probe) \<longrightarrow>
      determineNextAction (ev\<lparr>overall_score := s\<rparr>) d maxDepth
        = \<lparr> action = next_question, followUpType = None \<rparr>)"
  by (auto simp: determineNextAction_def)

text \<open>Scenarios B and C of the specification, from the theorem.\<close>

theorem decision_priority_order_witness:
  "determineNextAction (skewedEvaluation\<lparr>overall_score := 1.5\<rparr>) 0 3
      = \<lparr> action = follow_up, followUpType = Some clarify \<rparr>
   \<and> determineNextAction (skewedEvaluation\<lparr>overall_score := 4.2\<rparr>) 1 3
      = \<lparr> action = next_question, followUpType = None \<rparr>"
  using decision_priority_order [where s = "1.5" and d = 0 and maxDepth = 3 and ev = skewedEvaluation]
        decision_priority_order [where s = "4.2" and d = 1 and maxDepth = 3 and ev = skewedEvaluation]
  by simp

subsection \<open>Evaluator\<close>





subsection \<open>Plan builder\<close>






subsection \<open>Generation gateway\<close>

lemma completionLoop_all_fail:
  assumes "\<forall>k. \<not> isPayload (backend k)" and "attempt \<le> maxRetries cfg"
  shows "completionLoop cfg backend attempt lastError calls =
          (Inl (Error (''Ollama failed after '' @ show_int (maxRetries cfg) @ '' attempts: '' @
             (if attempt = maxRetries cfg
              then (case lastError of None \<Rightarrow> ''undefined'' | Some message \<Rightarrow> message)
              else failureMessage (backend (calls + nat (maxRetries cfg - attempt - 1)))))),
           calls + nat (maxRetries cfg - attempt))"
  using assms
proof (induction cfg backend attempt lastError calls rule: completionLoop.induct)
  case (1 cfg backend attempt lastError calls)
  show ?case
  proof (cases "attempt < maxRetries cfg")
    case False
    with "1.prems" show ?thesis by (simp add: completionLoop.simps)
  next
    case True
    have np: "\<not> isPayload (backend calls)" using "1.prems" by blast
    have le: "attempt + 1 \<le> maxRetries cfg" using True by simp
    have cnt: "Suc calls + nat (maxRetries cfg - (attempt + 1)) = calls + nat (maxRetries cfg - attempt)"
      using True by simp
    have idx: "attempt + 1 \<noteq> maxRetries cfg \<Longrightarrow>
        Suc calls + nat (maxRetries cfg - (attempt + 1) - 1) = calls + nat (maxRetries cfg - attempt - 1)"
      using True by simp
    have idx0: "attempt + 1 = maxRetries cfg \<Longrightarrow> calls + nat (maxRetries cfg - attempt - 1) = calls"
      by simp
    define m where "m = failureMessage (backend calls)"
    have step: "completionLoop cfg backend attempt lastError calls =
                completionLoop cfg backend (attempt + 1) (Some m) (Suc calls)"
      using True np unfolding m_def
      by (subst completionLoop.simps)
         (simp add: failureMessage_def isPayload_def split: Response.splits)
    have ih: "completionLoop cfg backend (attempt + 1) (Some m) (Suc calls) =
          (Inl (Error (''Ollama failed after '' @ show_int (maxRetries cfg) @ '' attempts: '' @
             (if attempt + 1 = maxRetries cfg then m
              else failureMessage (backend (Suc calls + nat (maxRetries cfg - (attempt + 1) - 1)))))),
           Suc calls + nat (maxRetries cfg - (attempt + 1)))"
    proof (cases "backend calls")
      case (FetchThrows x)
      from "1.IH"(1) [OF True FetchThrows "1.prems"(1) le] FetchThrows
      show ?thesis by (simp add: m_def failureMessage_def)
    next
      case (HttpStatus st stext)
      from "1.IH"(2) [OF True HttpStatus "1.prems"(1) le] HttpStatus
      show ?thesis by (simp add: m_def failureMessage_def)
    next
      case (Payload p)
      with np show ?thesis by (simp add: isPayload_def)
    qed
    have ne: "attempt \<noteq> maxRetries cfg" using True by simp
    show ?thesis
    proof (cases "attempt + 1 = maxRetries cfg")
      case True
      have "nat (maxRetries cfg - attempt - 1) = 0" using True by simp
      then show ?thesis
        unfolding step ih cnt using True ne by (simp add: m_def)
    next
      case False
      show ?thesis
        unfolding step ih cnt idx [OF False] using False ne by simp
    qed
  qed
qed

lemma generateCompletion_all_fail:
  assumes "\<forall>k. \<not> isPayload (backend k)" and "0 < maxRetries cfg"
  shows "generateCompletion cfg backend calls =
          (Inl (Error (''Ollama failed after '' @ show_int (maxRetries cfg) @ '' attempts: '' @
                failureMessage (backend (calls + nat (maxRetries cfg - 1))))),
           calls + nat (maxRetries cfg))"
  using completionLoop_all_fail [OF assms(1), of 0 cfg None calls] assms(2)
  by (simp add: generateCompletion_def)

lemma jsonLoop_shape:
  "(\<exists>v. fst (jsonLoop cfg parse backend attempt lastError calls) = Inr v) \<or>
   (\<exists>m. fst (jsonLoop cfg parse backend attempt lastError calls) =
          Inl (Error (''Failed to get valid JSON from Ollama: '' @ m)))"
proof (induction cfg parse backend attempt lastError calls rule: jsonLoop.induct)
  case (1 cfg parse backend attempt lastError calls)
  show ?case
  proof (cases "attempt < 3")
    case False
    then show ?thesis by (subst (1 2) jsonLoop.simps) simp
  next
    case True
    obtain r c where gc: "generateCompletion cfg backend calls = (r, c)" by (cases "generateCompletion cfg backend calls")
    show ?thesis
    proof (cases r)
      case (Inl e)
      with "1.IH"(1) [OF True gc [symmetric]] True gc show ?thesis
        by (subst (1 2) jsonLoop.simps) simp
    next
      case (Inr resp)
      note r = this
      show ?thesis
      proof (cases "parse resp")
        case (Inl m)
        with "1.IH"(2) [OF True gc [symmetric] r Inl] True gc r show ?thesis
          by (subst (1 2) jsonLoop.simps) simp
      next
        case (Inr parsed)
        with True gc r show ?thesis
          by (subst jsonLoop.simps) simp
      qed
    qed
  qed
qed


lemma jsonLoop_all_fail:
  assumes "\<forall>k. \<not> isPayload (backend k)" and "0 < maxRetries cfg"
  shows "generateJSON cfg parse backend calls =
          (Inl (Error (''Failed to get valid JSON from Ollama: '' @
                ''Ollama failed after '' @ show_int (maxRetries cfg) @ '' attempts: '' @
                failureMessage (backend (calls + 2 * nat (maxRetries cfg) + nat (maxRetries cfg - 1))))),
           calls + 3 * nat (maxRetries cfg))"
  unfolding generateJSON_def
  apply (subst jsonLoop.simps, simp add: generateCompletion_all_fail [OF assms] errorMessage_def)
  apply (subst jsonLoop.simps, simp add: generateCompletion_all_fail [OF assms] errorMessage_def)
  apply (subst jsonLoop.simps, simp add: generateCompletion_all_fail [OF assms] errorMessage_def)
  apply (subst jsonLoop.simps, simp add: add.assoc mult_2)
  done

lemma jsonLoop_all_malformed:
  assumes "\<forall>k. \<exists>p. backend k = Payload p \<and> (\<exists>m. parse p = Inl m)" and "0 < maxRetries cfg"
  shows "\<exists>p m. backend (calls + 2) = Payload p \<and> parse p = Inl m \<and>
           generateJSON cfg parse backend calls =
             (Inl (Error (''Failed to get valid JSON from Ollama: '' @ m)), calls + 3)"
proof -
  obtain p0 m0 where b0: "backend calls = Payload p0" "parse p0 = Inl m0" using assms(1) by blast
  obtain p1 m1 where b1: "backend (Suc calls) = Payload p1" "parse p1 = Inl m1" using assms(1) by blast
  obtain p2 m2 where b2: "backend (Suc (Suc calls)) = Payload p2" "parse p2 = Inl m2" using assms(1) by blast
  have c0: "generateCompletion cfg backend calls = (Inr p0, Suc calls)"
    using b0(1) assms(2) by (simp add: generateCompletion_def completionLoop.simps)
  have c1: "generateCompletion cfg backend (Suc calls) = (Inr p1, Suc (Suc calls))"
    using b1(1) assms(2) by (simp add: generateCompletion_def completionLoop.simps)
  have c2: "generateCompletion cfg backend (Suc (Suc calls)) = (Inr p2, Suc (Suc (Suc calls)))"
    using b2(1) assms(2) by (simp add: generateCompletion_def completionLoop.simps)
  have "generateJSON cfg parse backend calls =
          (Inl (Error (''Failed to get valid JSON from Ollama: '' @ m2)), calls + 3)"
    unfolding generateJSON_def
    apply (subst jsonLoop.simps, simp add: c0 b0)
    apply (subst jsonLoop.simps, simp add: c1 b1)
    apply (subst jsonLoop.simps, simp add: c2 b2)
    apply (subst jsonLoop.simps, simp)
    done
  with b2 show ?thesis by simp
qed

text \<open>
  C5, as the code has it. \<open>generateJSON\<close> either returns the parsed value or throws a
  plain \<open>Error\<close> whose message starts with \<open>Failed to get valid JSON from Ollama: \<close>.
  When every fetch fails, the error thrown after 3 rounds of \<open>maxRetries\<close> fetches carries
  the message of the last round; when every payload fails to parse, the error thrown
  after 3 fetches carries the parser's last message. The two cases differ in the text of
  the message only.
\<close>

theorem gateway_failure_is_thrown_error:
  "((\<exists>v. fst (generateJSON cfg parse backend calls) = Inr v) \<or>
    (\<exists>m. fst (generateJSON cfg parse backend calls) =
          Inl (Error (''Failed to get valid JSON from Ollama: '' @ m))))
   \<and> (0 < maxRetries cfg \<and> (\<forall>k. \<not> isPayload (backend k)) \<longrightarrow>
        generateJSON cfg parse backend calls =
          (Inl (Error (''Failed to get valid JSON from Ollama: '' @
                ''Ollama failed after '' @ show_int (maxRetries cfg) @ '' attempts: '' @
                failureMessage (backend (calls + 2 * nat (maxRetries cfg) + nat (maxRetries cfg - 1))))),
           calls + 3 * nat (maxRetries cfg)))
   \<and> (0 < maxRetries cfg \<and> (\<forall>k. \<exists>p. backend k = Payload p \<and> (\<exists>m. parse p = Inl m)) \<longrightarrow>
        (\<exists>p m. backend (calls + 2) = Payload p \<and> parse p = Inl m \<and>
           generateJSON cfg parse backend calls =
             (Inl (Error (''Failed to get valid JSON from Ollama: '' @ m)), calls + 3)))"
  using jsonLoop_shape [of cfg parse backend 0 None calls]
        jsonLoop_all_fail [of backend cfg parse calls]
        jsonLoop_all_malformed [of backend parse cfg calls]
  unfolding generateJSON_def by blast

theorem gateway_failure_is_thrown_error_witness:
  "0 < maxRetries defaultConfig \<and> (\<forall>k. \<not> isPayload (unreachableBackend k))
   \<and> generateJSON defaultConfig rejectingParser unreachableBackend 0 =
       (Inl (Error ''Failed to get valid JSON from Ollama: Ollama failed after 3 attempts: fetch failed''), 9)
   \<and> (\<forall>k. \<exists>p. garbageBackend k = Payload p \<and> (\<exists>m. rejectingParser p = Inl m))
   \<and> generateJSON defaultConfig rejectingParser garbageBackend 0 =
       (Inl (Error ''Failed to get valid JSON from Ollama: Unexpected token o in JSON at position 1''), 3)"
proof -
  have r: "0 < maxRetries defaultConfig" by (simp add: defaultConfig_def)
  have u: "\<forall>k. \<not> isPayload (unreachableBackend k)"
    by (simp add: unreachableBackend_def isPayload_def)
  have g: "\<forall>k. \<exists>p. garbageBackend k = Payload p \<and> (\<exists>m. rejectingParser p = Inl m)"
    by (simp add: garbageBackend_def rejectingParser_def)
  from gateway_failure_is_thrown_error [of defaultConfig rejectingParser unreachableBackend 0] r u
  have a: "generateJSON defaultConfig rejectingParser unreachableBackend 0 =
       (Inl (Error ''Failed to get valid JSON from Ollama: Ollama failed after 3 attempts: fetch failed''), 9)"
    by (simp add: defaultConfig_def unreachableBackend_def failureMessage_def show_int_def show_nat.simps)
  from gateway_failure_is_thrown_error [of defaultConfig rejectingParser garbageBackend 0] r g
  have b: "generateJSON defaultConfig rejectingParser garbageBackend 0 =
       (Inl (Error ''Failed to get valid JSON from Ollama: Unexpected token o in JSON at position 1''), 3)"
    by (auto simp: garbageBackend_def rejectingParser_def)
  from r u g a b show ?thesis by blast
qed

text \<open>
  The claim as stated fails: with the backend unreachable, and with a payload that never
  parses, the failure is an \<open>Error\<close> that is thrown, of the same class in both cases.
\<close>

theorem gateway_typed_failure_counterexample:
  "fst (generateJSON defaultConfig rejectingParser unreachableBackend 0) =
       Inl (Error ''Failed to get valid JSON from Ollama: Ollama failed after 3 attempts: fetch failed'')
   \<and> fst (generateJSON defaultConfig rejectingParser garbageBackend 0) =
       Inl (Error ''Failed to get valid JSON from Ollama: Unexpected token o in JSON at position 1'')"
  by (simp add: generateJSON_def generateCompletion_def jsonLoop.simps completionLoop.simps
        show_int_def show_nat.simps errorMessage_def defaultConfig_def unreachableBackend_def
        garbageBackend_def rejectingParser_def)

subsection \<open>Steps and invariants of the orchestrator\<close>

lemma updateInterview_maps:
  "\<forall>i. i_id (f i) = i_id i \<Longrightarrow> map i_id (interviews (updateInterview iid f w)) = map i_id (interviews w)"
  "\<forall>i. i_session_id (f i) = i_session_id i \<Longrightarrow>
     map i_session_id (interviews (updateInterview iid f w)) = map i_session_id (interviews w)"
  "\<forall>i. question_plan (f i) = question_plan i \<Longrightarrow>
     map question_plan (interviews (updateInterview iid f w)) = map question_plan (interviews w)"
  "\<forall>i. i_status (f i) = i_status i \<Longrightarrow>
     map i_status (interviews (updateInterview iid f w)) = map i_status (interviews w)"
  by (auto simp: updateInterview_def)

lemma updateInterview_fields [simp]:
  "questions (updateInterview iid f w) = questions w"
  "answers (updateInterview iid f w) = answers w"
  "sessions (updateInterview iid f w) = sessions w"
  "cvs (updateInterview iid f w) = cvs w"
  "jds (updateInterview iid f w) = jds w"
  "next_interview_id (updateInterview iid f w) = next_interview_id w"
  "next_question_id (updateInterview iid f w) = next_question_id w"
  "next_answer_id (updateInterview iid f w) = next_answer_id w"
  "fetches (updateInterview iid f w) = fetches w"
  by (simp_all add: updateInterview_def)

lemma updateSessionStatus_fields [simp]:
  "questions (updateSessionStatus u st w) = questions w"
  "answers (updateSessionStatus u st w) = answers w"
  "interviews (updateSessionStatus u st w) = interviews w"
  "cvs (updateSessionStatus u st w) = cvs w"
  "jds (updateSessionStatus u st w) = jds w"
  "next_interview_id (updateSessionStatus u st w) = next_interview_id w"
  "next_question_id (updateSessionStatus u st w) = next_question_id w"
  "next_answer_id (updateSessionStatus u st w) = next_answer_id w"
  "fetches (updateSessionStatus u st w) = fetches w"
  by (simp_all add: updateSessionStatus_def)

lemma createQuestion_fields [simp]:
  "questions (createQuestion q w) = questions w @ [q]"
  "answers (createQuestion q w) = answers w"
  "interviews (createQuestion q w) = interviews w"
  "sessions (createQuestion q w) = sessions w"
  "cvs (createQuestion q w) = cvs w"
  "jds (createQuestion q w) = jds w"
  "next_interview_id (createQuestion q w) = next_interview_id w"
  "next_answer_id (createQuestion q w) = next_answer_id w"
  "fetches (createQuestion q w) = fetches w"
  by (simp_all add: createQuestion_def)

lemma finishTurn_shape:
  assumes "finishTurn iv ev nq st qa w = (r, w')"
  shows "questions w' = questions w \<and> answers w' = answers w \<and> sessions w' = sessions w
       \<and> cvs w' = cvs w \<and> jds w' = jds w
       \<and> next_interview_id w' = next_interview_id w
       \<and> map i_id (interviews w') = map i_id (interviews w)
       \<and> map i_session_id (interviews w') = map i_session_id (interviews w)
       \<and> map question_plan (interviews w') = map question_plan (interviews w)
       \<and> map i_status (interviews w') = map i_status (interviews w)
       \<and> (\<forall>x. r = Inr x \<longrightarrow> \<not> isComplete x)"
  using assms
  by (auto simp: finishTurn_def Let_def updateInterview_maps split: option.splits)

lemma followUpStep_shape:
  assumes "followUpStep cfg e iv qn fut ev st qa w = (r, w')"
  shows "stepShape iv (depth_level qn + 1) w r w'"
proof (cases "generateFollowUp cfg e (q_competency qn) fut (depth_level qn + 1) (fetches w)")
  case (Pair g calls)
  show ?thesis
  proof (cases g)
    case (Inl err)
    with Pair assms show ?thesis by (auto simp: followUpStep_def stepShape_def)
  next
    case (Inr followUp)
    with Pair assms obtain q w1 nq st1 where
      ft: "finishTurn iv ev nq st1 qa w1 = (r, w')"
      and w1: "w1 = createQuestion q (w\<lparr> fetches := calls \<rparr>)"
      and q: "q_interview_id q = i_id iv" "depth_level q = depth_level qn + 1"
      by (auto simp: followUpStep_def Let_def)
    from finishTurn_shape [OF ft] w1 q show ?thesis
      by (auto simp: stepShape_def)
  qed
qed

lemma rootQuestionStep_shape:
  assumes "rootQuestionStep cfg e iv ev target st qa w = (r, w')"
  shows "stepShape iv 0 w r w'"
proof (cases "generateQuestion cfg e target (qa + 1) (fetches w)")
  case (Pair g calls)
  show ?thesis
  proof (cases g)
    case (Inl err)
    with Pair assms show ?thesis by (auto simp: rootQuestionStep_def stepShape_def)
  next
    case (Inr generated)
    show ?thesis
    proof (cases target)
      case None
      with Inr Pair assms show ?thesis by (auto simp: rootQuestionStep_def stepShape_def)
    next
      case (Some t)
      with Inr Pair assms obtain q w1 nq where
        ft: "finishTurn iv ev nq st qa w1 = (r, w')"
        and w1: "w1 = createQuestion q (w\<lparr> fetches := calls \<rparr>)"
        and q: "q_interview_id q = i_id iv" "depth_level q = 0"
        by (auto simp: rootQuestionStep_def Let_def)
      from finishTurn_shape [OF ft] w1 q show ?thesis
        by (auto simp: stepShape_def)
    qed
  qed
qed

lemma advanceStep_shape:
  assumes "advanceStep cfg e now iv qn jd ev st qa w = (r, w')"
  shows "stepShape iv 0 w r w'"
proof (cases "question_plan iv")
  case None
  with assms show ?thesis by (auto simp: advanceStep_def stepShape_def)
next
  case (Some plan)
  from assms Some consider
    (root) target st' where "rootQuestionStep cfg e iv ev target st' qa w = (r, w')"
  | (ended) st' where "r = Inr (completeResult ev qa qn)"
       "w' = updateInterview (i_id iv)
               (\<lambda>i. i\<lparr> i_status := I_completed, interview_state := Some st',
                       completed_at := Some now \<rparr>) w"
    by (auto simp: advanceStep_def Let_def split: if_splits)
  then show ?thesis
  proof cases
    case root
    then show ?thesis by (rule rootQuestionStep_shape)
  next
    case ended
    then show ?thesis
      by (auto simp: stepShape_def completeResult_def updateInterview_maps)
  qed
qed

lemma updateSessionStatus_maps [simp]:
  "map s_id (sessions (updateSessionStatus u st w)) = map s_id (sessions w)"
  "map s_uuid (sessions (updateSessionStatus u st w)) = map s_uuid (sessions w)"
  by (auto simp: updateSessionStatus_def)

lemma follow_up_depth:
  "action (determineNextAction ev d m) = follow_up \<Longrightarrow> d < m"
  by (auto simp: determineNextAction_def Let_def split: if_splits)


lemma recordAnswer_shape:
  assumes "recordAnswer cfg e uuid now iv qn jd text rt er w = (r, w')"
  shows "answerShape cfg iv qn w r w'"
proof -
  define a where "a = \<lparr> a_id = next_answer_id w, a_question_id = q_id qn, answer_text = text,
                    response_time_ms = (case rt of None \<Rightarrow> None | Some t \<Rightarrow> if t = 0 then None else Some t),
                    evaluation = toAnswerEvaluation er,
                    quality_score = Math_round (overall_score er) \<rparr>"
  define w1 where "w1 = w\<lparr> answers := answers w @ [a], next_answer_id := Suc (next_answer_id w) \<rparr>"
  have w1: "questions w1 = questions w" "interviews w1 = interviews w" "sessions w1 = sessions w"
    "cvs w1 = cvs w" "jds w1 = jds w" "next_interview_id w1 = next_interview_id w"
    "countQuestions w1 (i_id iv) = countQuestions w (i_id iv)"
    by (simp_all add: w1_def countQuestions_def)
  show ?thesis
  proof (cases "interview_state iv")
    case None
    with assms show ?thesis by (auto simp: recordAnswer_def Let_def answerShape_def)
  next
    case (Some st0)
    from assms Some consider
      (ended) st where "r = Inr (completeResult (toAnswerEvaluation er) (countQuestions w1 (i_id iv)) qn)"
        "w' = updateSessionStatus uuid S_completed
                 (updateInterview (i_id iv)
                    (\<lambda>i. i\<lparr> i_status := I_completed, interview_state := Some st,
                            completed_at := Some now \<rparr>) w1)"
    | (follow) fut st qa where
        "followUpStep cfg e iv qn fut (toAnswerEvaluation er) st qa w1 = (r, w')"
        "action (determineNextAction er (depth_level qn) (maxFollowUpDepth cfg)) = follow_up"
        "\<not> countQuestions w1 (i_id iv) \<ge> maxQuestions cfg"
    | (adv) st qa where
        "advanceStep cfg e now iv qn jd (toAnswerEvaluation er) st qa w1 = (r, w')"
        "\<not> countQuestions w1 (i_id iv) \<ge> maxQuestions cfg"
      unfolding recordAnswer_def Let_def w1_def a_def
      by (auto split: if_splits Action.splits option.splits)
    then show ?thesis
    proof cases
      case ended
      then show ?thesis
        using w1 by (auto simp: answerShape_def completeResult_def updateInterview_maps)
    next
      case follow
      from followUpStep_shape [OF follow(1)] follow_up_depth [OF follow(2)] follow(3) w1
      show ?thesis
        by (auto simp: stepShape_def answerShape_def)
    next
      case adv
      from advanceStep_shape [OF adv(1)] adv(2) w1
      show ?thesis
        by (auto simp: stepShape_def answerShape_def)
    qed
  qed
qed

lemma processAnswer_cases:
  assumes "processAnswer cfg e uuid qid text rt now w = (r, w')"
  obtains (rejected) err where "r = Inl err" "w' = w"
  | (evalFailed) err c where "r = Inl err" "w' = w\<lparr> fetches := c \<rparr>"
  | (recorded) s iv qn jd er c where
      "findSession w uuid = Some s"
      "find (\<lambda>i. i_session_id i = s_id s \<and> i_status i = I_in_progress) (interviews w) = Some iv"
      "find (\<lambda>q. q_id q = qid) (questions w) = Some qn"
      "q_interview_id qn = i_id iv"
      "parsedJD w (s_id s) = Some jd"
      "evaluateResponse cfg (env_parseEvaluation e) (env_backend e) text (fetches w) = (Inr er, c)"
      "recordAnswer cfg e uuid now iv qn jd text rt er (w\<lparr> fetches := c \<rparr>) = (r, w')"
  using assms unfolding processAnswer_def
  by (auto split: option.splits if_splits prod.splits sum.splits)

lemma find_in_set: "find P xs = Some x \<Longrightarrow> x \<in> set xs \<and> P x"
  by (induction xs) (auto split: if_splits)

lemma wf_kept:
  assumes "wf w"
    and "next_interview_id w' = next_interview_id w"
    and "map i_id (interviews w') = map i_id (interviews w)"
    and "map i_session_id (interviews w') = map i_session_id (interviews w)"
    and "questions w' = questions w \<or>
         (\<exists>q iv. questions w' = questions w @ [q] \<and> q_interview_id q = i_id iv \<and> iv \<in> set (interviews w))"
  shows "wf w'"
proof -
  have ids: "\<forall>i\<in>set (interviews w'). i_id i < next_interview_id w'"
  proof
    fix i assume "i \<in> set (interviews w')"
    then have "i_id i \<in> set (map i_id (interviews w'))" by simp
    then have "i_id i \<in> set (map i_id (interviews w))" using assms(3) by simp
    then show "i_id i < next_interview_id w'" using assms(1,2) by (auto simp: wf_def)
  qed
  have qs: "\<forall>q\<in>set (questions w'). q_interview_id q < next_interview_id w'"
    using assms(1,2,5) by (auto simp: wf_def)
  have "distinct (map i_session_id (interviews w'))"
    using assms(1,4) by (simp add: wf_def)
  with ids qs show ?thesis by (simp add: wf_def)
qed

lemma processAnswer_frame:
  assumes "processAnswer cfg e uuid qid text rt now w = (r, w')"
  shows "next_interview_id w' = next_interview_id w \<and>
     map i_id (interviews w') = map i_id (interviews w) \<and>
     map i_session_id (interviews w') = map i_session_id (interviews w) \<and>
     map question_plan (interviews w') = map question_plan (interviews w) \<and>
     cvs w' = cvs w \<and> jds w' = jds w \<and>
     map s_id (sessions w') = map s_id (sessions w) \<and>
     map s_uuid (sessions w') = map s_uuid (sessions w)"
  using assms
proof (cases rule: processAnswer_cases)
  case (rejected err)
  then show ?thesis by simp
next
  case (evalFailed err c)
  then show ?thesis by simp
next
  case (recorded s iv qn jd er c)
  from recordAnswer_shape [OF recorded(7)]
  show ?thesis by (simp add: answerShape_def)
qed

lemma processAnswer_shape:
  assumes "processAnswer cfg e uuid qid text rt now w = (r, w')"
  shows "processShape cfg uuid qid w r w'"
  using assms
proof (cases rule: processAnswer_cases)
  case (rejected err)
  then show ?thesis by (simp add: processShape_def)
next
  case (evalFailed err c)
  then show ?thesis by (simp add: processShape_def)
next
  case (recorded s iv qn jd er c)
  have cq: "countQuestions (w\<lparr> fetches := c \<rparr>) (i_id iv) = countQuestions w (i_id iv)"
    by (simp add: countQuestions_def)
  from recordAnswer_shape [OF recorded(7)]
  have "(questions w' = questions w \<and> (\<forall>x. r = Inr x \<longrightarrow> isComplete x))
      \<or> (\<exists>q. questions w' = questions w @ [q] \<and> q_interview_id q = i_id iv
             \<and> (depth_level q = 0 \<or>
                  (depth_level q = depth_level qn + 1 \<and> depth_level qn < maxFollowUpDepth cfg))
             \<and> countQuestions w (i_id iv) < maxQuestions cfg
             \<and> sessions w' = sessions w
             \<and> map i_status (interviews w') = map i_status (interviews w)
             \<and> (\<forall>x. r = Inr x \<longrightarrow> \<not> isComplete x))"
    by (simp add: answerShape_def cq)
  then show ?thesis
  proof (elim disjE exE)
    assume "questions w' = questions w \<and> (\<forall>x. r = Inr x \<longrightarrow> isComplete x)"
    then show ?thesis by (simp add: processShape_def)
  next
    fix q
    assume q: "questions w' = questions w @ [q] \<and> q_interview_id q = i_id iv
             \<and> (depth_level q = 0 \<or>
                  (depth_level q = depth_level qn + 1 \<and> depth_level qn < maxFollowUpDepth cfg))
             \<and> countQuestions w (i_id iv) < maxQuestions cfg
             \<and> sessions w' = sessions w
             \<and> map i_status (interviews w') = map i_status (interviews w)
             \<and> (\<forall>x. r = Inr x \<longrightarrow> \<not> isComplete x)"
    show ?thesis
      unfolding processShape_def
      apply (rule disjI2)
      apply (rule exI [of _ q], rule exI [of _ s], rule exI [of _ iv], rule exI [of _ qn])
      using q recorded(1-4) apply simp
      done
  qed
qed

lemma processShape_cases:
  assumes "processShape cfg uuid qid w r w'"
  obtains (same) "questions w' = questions w" "\<forall>x. r = Inr x \<longrightarrow> isComplete x"
  | (more) q s iv qn where "questions w' = questions w @ [q]"
      "findSession w uuid = Some s"
      "find (\<lambda>i. i_session_id i = s_id s \<and> i_status i = I_in_progress) (interviews w) = Some iv"
      "find (\<lambda>q. q_id q = qid) (questions w) = Some qn"
      "q_interview_id q = i_id iv"
      "depth_level q = 0 \<or>
         (depth_level q = depth_level qn + 1 \<and> depth_level qn < maxFollowUpDepth cfg)"
      "countQuestions w (i_id iv) < maxQuestions cfg"
      "sessions w' = sessions w"
      "map i_status (interviews w') = map i_status (interviews w)"
      "\<forall>x. r = Inr x \<longrightarrow> \<not> isComplete x"
  using assms unfolding processShape_def by blast

lemma processAnswer_wf:
  assumes "processAnswer cfg e uuid qid text rt now w = (r, w')" and "wf w"
  shows "wf w'"
proof -
  note fr = processAnswer_frame [OF assms(1)]
  have "questions w' = questions w \<or>
         (\<exists>q iv. questions w' = questions w @ [q] \<and> q_interview_id q = i_id iv \<and> iv \<in> set (interviews w))"
    using processAnswer_shape [OF assms(1)]
  proof (cases rule: processShape_cases)
    case same then show ?thesis by simp
  next
    case (more q s iv qn)
    from find_in_set [OF more(3)] more(1,5) show ?thesis by blast
  qed
  moreover have "next_interview_id w' = next_interview_id w"
    "map i_id (interviews w') = map i_id (interviews w)"
    "map i_session_id (interviews w') = map i_session_id (interviews w)"
    using fr by blast+
  ultimately show ?thesis using assms(2) wf_kept by blast
qed

lemma countQuestions_append:
  "questions w' = questions w @ [q] \<Longrightarrow>
   countQuestions w' iid = countQuestions w iid + (if q_interview_id q = iid then 1 else 0)"
  by (simp add: countQuestions_def)

lemma processAnswer_bounded:
  assumes "processAnswer cfg e uuid qid text rt now w = (r, w')" and "bounded cfg w"
  shows "bounded cfg w'"
  using processAnswer_shape [OF assms(1)]
proof (cases rule: processShape_cases)
  case same
  with assms(2) show ?thesis by (simp add: bounded_def countQuestions_def)
next
  case (more q s iv qn)
  show ?thesis
    unfolding bounded_def
  proof
    fix iid
    from assms(2) have "countQuestions w iid \<le> maxQuestions cfg" by (simp add: bounded_def)
    with more(5,7) show "countQuestions w' iid \<le> maxQuestions cfg"
      by (auto simp: countQuestions_append [OF more(1)])
  qed
qed

lemma processAnswer_shallow:
  assumes "processAnswer cfg e uuid qid text rt now w = (r, w')" and "shallow cfg w"
    and "0 \<le> maxFollowUpDepth cfg"
  shows "shallow cfg w'"
  using processAnswer_shape [OF assms(1)]
proof (cases rule: processShape_cases)
  case same
  with assms(2) show ?thesis by (simp add: shallow_def)
next
  case (more q s iv qn)
  with assms(2,3) show ?thesis by (auto simp: shallow_def)
qed

lemma withoutExisting_fields [simp]:
  "sessions (withoutExisting w sid) = sessions w"
  "cvs (withoutExisting w sid) = cvs w"
  "jds (withoutExisting w sid) = jds w"
  "next_interview_id (withoutExisting w sid) = next_interview_id w"
  "next_question_id (withoutExisting w sid) = next_question_id w"
  "next_answer_id (withoutExisting w sid) = next_answer_id w"
  "fetches (withoutExisting w sid) = fetches w"
  by (simp_all add: withoutExisting_def destroyInterview_def Let_def split: option.splits)

lemma withoutExisting_subset:
  "set (interviews (withoutExisting w sid)) \<subseteq> set (interviews w)"
  "set (questions (withoutExisting w sid)) \<subseteq> set (questions w)"
  "set (answers (withoutExisting w sid)) \<subseteq> set (answers w)"
  by (auto simp: withoutExisting_def destroyInterview_def Let_def split: option.splits)

lemma find_None_iff': "(find P xs = None) = (\<forall>x\<in>set xs. \<not> P x)"
  by (induction xs) auto

lemma distinct_map_unique:
  "distinct (map f xs) \<Longrightarrow> x \<in> set xs \<Longrightarrow> y \<in> set xs \<Longrightarrow> f x = f y \<Longrightarrow> x = y"
  by (meson distinct_map inj_onD)

lemma withoutExisting_no_session:
  assumes "distinct (map i_session_id (interviews w))"
  shows "\<forall>i\<in>set (interviews (withoutExisting w sid)). i_session_id i \<noteq> sid"
proof (cases "find (\<lambda>i. i_session_id i = sid) (interviews w)")
  case None
  then have "\<forall>x\<in>set (interviews w). i_session_id x \<noteq> sid" by (simp add: find_None_iff')
  with None show ?thesis by (simp add: withoutExisting_def)
next
  case (Some ex)
  from find_in_set [OF Some] have ex: "ex \<in> set (interviews w)" "i_session_id ex = sid" by simp_all
  show ?thesis
  proof
    fix i assume i: "i \<in> set (interviews (withoutExisting w sid))"
    then have mem: "i \<in> set (interviews w)" and ne: "i_id i \<noteq> i_id ex"
      using Some by (auto simp: withoutExisting_def destroyInterview_def Let_def)
    show "i_session_id i \<noteq> sid"
    proof
      assume "i_session_id i = sid"
      with distinct_map_unique [OF assms mem ex(1)] ex(2) have "i = ex" by simp
      with ne show False by simp
    qed
  qed
qed

lemma withoutExisting_distinct:
  "distinct (map i_session_id (interviews w)) \<Longrightarrow>
   distinct (map i_session_id (interviews (withoutExisting w sid)))"
  by (auto simp: withoutExisting_def destroyInterview_def Let_def distinct_map_filter split: option.splits)

lemma startInterview_cases:
  assumes "startInterview cfg e uuid now w = (r, w')"
  obtains (rejected) err where "r = Inl err" "w' = w"
      "findSession w uuid = None
       \<or> (\<exists>s. findSession w uuid = Some s
              \<and> (parsedCV w (s_id s) = None \<or> parsedJD w (s_id s) = None))"
  | (genFailed) s cv jd err c where
      "findSession w uuid = Some s" "parsedCV w (s_id s) = Some cv" "parsedJD w (s_id s) = Some jd"
      "generateQuestion cfg e (firstArea jd) 1 (fetches w) = (Inl err, c)"
      "r = Inl err"
      "w' = (withoutExisting w (s_id s))
              \<lparr> interviews := interviews (withoutExisting w (s_id s))
                               @ [newInterview cfg now (s_id s) jd (next_interview_id w)],
                next_interview_id := Suc (next_interview_id w), fetches := c \<rparr>"
  | (created) s cv jd g c where
      "findSession w uuid = Some s" "parsedCV w (s_id s) = Some cv" "parsedJD w (s_id s) = Some jd"
      "generateQuestion cfg e (firstArea jd) 1 (fetches w) = (Inr g, c)"
      "w' = updateSessionStatus uuid S_interviewing
             (createQuestion
                \<lparr> q_id = next_question_id w, q_interview_id = next_interview_id w,
                  parent_id = None, sequence_num = 1, q_competency = gq_competency g,
                  question_text = gq_question_text g, depth_level = 0 \<rparr>
                ((withoutExisting w (s_id s))
                  \<lparr> interviews := interviews (withoutExisting w (s_id s))
                                   @ [newInterview cfg now (s_id s) jd (next_interview_id w)],
                    next_interview_id := Suc (next_interview_id w), fetches := c \<rparr>))"
      "r = Inl undefinedRead \<or> (\<exists>sr. r = Inr sr \<and> sr_interviewId sr = next_interview_id w)"
proof (cases "findSession w uuid")
  case None
  with assms have "r = Inl (Error ''Session not found'')" "w' = w"
    by (simp_all add: startInterview_def)
  then show ?thesis using None by (intro rejected) simp_all
next
  case s: (Some s)
  show ?thesis
  proof (cases "parsedCV w (s_id s)")
    case None
    with assms s have "r = Inl (Error ''CV and JD must be parsed before starting interview'')" "w' = w"
      by (simp_all add: startInterview_def)
    then show ?thesis using s None by (intro rejected) simp_all
  next
    case cv: (Some cv)
    show ?thesis
    proof (cases "parsedJD w (s_id s)")
      case None
      with assms s cv have "r = Inl (Error ''CV and JD must be parsed before starting interview'')" "w' = w"
        by (simp_all add: startInterview_def)
      then show ?thesis using s None by (intro rejected) simp_all
    next
      case jd: (Some jd)
      obtain g c where g: "generateQuestion cfg e (firstArea jd) 1 (fetches w) = (g, c)"
        by (cases "generateQuestion cfg e (firstArea jd) 1 (fetches w)")
      note defs = startInterview_def Let_def withoutExisting_def [symmetric]
              newInterview_def firstArea_def [symmetric]
      show ?thesis
      proof (cases g)
        case (Inl err)
        with assms s cv jd g have "r = Inl err"
          "w' = (withoutExisting w (s_id s))
              \<lparr> interviews := interviews (withoutExisting w (s_id s))
                               @ [newInterview cfg now (s_id s) jd (next_interview_id w)],
                next_interview_id := Suc (next_interview_id w), fetches := c \<rparr>"
          by (simp_all add: defs)
        with s cv jd g Inl show ?thesis by (intro genFailed) simp_all
      next
        case (Inr gq)
        with assms s cv jd g have
          "w' = updateSessionStatus uuid S_interviewing
             (createQuestion
                \<lparr> q_id = next_question_id w, q_interview_id = next_interview_id w,
                  parent_id = None, sequence_num = 1, q_competency = gq_competency gq,
                  question_text = gq_question_text gq, depth_level = 0 \<rparr>
                ((withoutExisting w (s_id s))
                  \<lparr> interviews := interviews (withoutExisting w (s_id s))
                                   @ [newInterview cfg now (s_id s) jd (next_interview_id w)],
                    next_interview_id := Suc (next_interview_id w), fetches := c \<rparr>))"
          "r = Inl undefinedRead \<or> (\<exists>sr. r = Inr sr \<and> sr_interviewId sr = next_interview_id w)"
          by (auto simp: defs split: option.splits)
        with s cv jd g Inr show ?thesis by (intro created) simp_all
      qed
    qed
  qed
qed

lemma length_filter_filter_le: "length (filter P (filter Q xs)) \<le> length (filter P xs)"
  by (induction xs) auto

lemma countQuestions_withoutExisting:
  "countQuestions (withoutExisting w sid) iid \<le> countQuestions w iid"
proof (cases "find (\<lambda>i. i_session_id i = sid) (interviews w)")
  case None
  then show ?thesis by (simp add: withoutExisting_def)
next
  case (Some ex)
  have "length (filter (\<lambda>q. q_interview_id q = iid)
                 (filter (\<lambda>q. q_interview_id q \<noteq> i_id ex) (questions w)))
        \<le> length (filter (\<lambda>q. q_interview_id q = iid) (questions w))"
    by (rule length_filter_filter_le)
  with Some show ?thesis
    by (simp add: withoutExisting_def destroyInterview_def Let_def countQuestions_def)
qed

lemma wf_fresh_count: "wf w \<Longrightarrow> countQuestions w (next_interview_id w) = 0"
  by (auto simp: wf_def countQuestions_def filter_empty_conv)

lemma startInterview_wf:
  assumes "startInterview cfg e uuid now w = (r, w')" and "wf w"
  shows "wf w'"
  using assms(1)
proof (cases rule: startInterview_cases)
  case (rejected err)
  with assms(2) show ?thesis by simp
next
  case (genFailed s cv jd err c)
  from assms(2) have d: "distinct (map i_session_id (interviews w))" by (simp add: wf_def)
  from withoutExisting_no_session [OF d, of "s_id s"] withoutExisting_distinct [OF d, of "s_id s"]
    withoutExisting_subset [of w "s_id s"] assms(2)
  show ?thesis
    unfolding genFailed(6) wf_def
    by (auto simp: newInterview_def less_Suc_eq)
next
  case (created s cv jd g c)
  from assms(2) have d: "distinct (map i_session_id (interviews w))" by (simp add: wf_def)
  from withoutExisting_no_session [OF d, of "s_id s"] withoutExisting_distinct [OF d, of "s_id s"]
    withoutExisting_subset [of w "s_id s"] assms(2)
  show ?thesis
    unfolding created(5) wf_def
    by (auto simp: newInterview_def less_Suc_eq)
qed

lemma startInterview_bounded:
  assumes "startInterview cfg e uuid now w = (r, w')" and "wf w" and "bounded cfg w"
    and "1 \<le> maxQuestions cfg"
  shows "bounded cfg w'"
  using assms(1)
proof (cases rule: startInterview_cases)
  case (rejected err)
  with assms(3) show ?thesis by simp
next
  case (genFailed s cv jd err c)
  have "countQuestions w' iid = countQuestions (withoutExisting w (s_id s)) iid" for iid
    unfolding genFailed(6) by (simp add: countQuestions_def)
  with countQuestions_withoutExisting [of w "s_id s"] assms(3) show ?thesis
    unfolding bounded_def by (metis order_trans)
next
  case (created s cv jd g c)
  show ?thesis
    unfolding bounded_def
  proof
    fix iid
    have eq: "countQuestions w' iid = countQuestions (withoutExisting w (s_id s)) iid
                + (if next_interview_id w = iid then 1 else 0)"
      unfolding created(5) by (simp add: countQuestions_def)
    have le: "countQuestions (withoutExisting w (s_id s)) iid \<le> countQuestions w iid"
      by (rule countQuestions_withoutExisting)
    show "countQuestions w' iid \<le> maxQuestions cfg"
    proof (cases "next_interview_id w = iid")
      case True
      with wf_fresh_count [OF assms(2)] le have "countQuestions (withoutExisting w (s_id s)) iid \<le> 0"
        by simp
      with eq True assms(4) show ?thesis by simp
    next
      case False
      with eq le assms(3) show ?thesis by (simp add: bounded_def) (metis order_trans)
    qed
  qed
qed

lemma startInterview_shallow:
  assumes "startInterview cfg e uuid now w = (r, w')" and "shallow cfg w"
    and "0 \<le> maxFollowUpDepth cfg"
  shows "shallow cfg w'"
  using assms(1)
proof (cases rule: startInterview_cases)
  case (rejected err)
  with assms(2) show ?thesis by simp
next
  case (genFailed s cv jd err c)
  from withoutExisting_subset(2) [of w "s_id s"] assms(2) show ?thesis
    unfolding genFailed(6) shallow_def by auto
next
  case (created s cv jd g c)
  from withoutExisting_subset(2) [of w "s_id s"] assms(2,3) show ?thesis
    unfolding created(5) shallow_def by auto
qed

lemma validateSession_fields:
  assumes "validateSession uuid now w = (v, w1)"
  shows "interviews w1 = interviews w \<and> questions w1 = questions w \<and> answers w1 = answers w
       \<and> next_interview_id w1 = next_interview_id w \<and> cvs w1 = cvs w \<and> jds w1 = jds w
       \<and> (\<forall>s. v = Some s \<longrightarrow> w1 = w \<and> findSession w uuid = Some s \<and> \<not> now > expires_at s)"
  using assms
  by (auto simp: validateSession_def split: option.splits if_splits)

lemma finishInterview_frame:
  assumes "finishInterview uuid now w = (fr, w')"
  shows "questions w' = questions w \<and> answers w' = answers w
       \<and> next_interview_id w' = next_interview_id w
       \<and> map i_id (interviews w') = map i_id (interviews w)
       \<and> map i_session_id (interviews w') = map i_session_id (interviews w)"
proof (cases "uuid = []")
  case True
  with assms show ?thesis by (simp add: finishInterview_def)
next
  case False
  obtain v w1 where v: "validateSession uuid now w = (v, w1)" by (cases "validateSession uuid now w")
  note vf = validateSession_fields [OF v]
  have "questions w' = questions w1 \<and> answers w' = answers w1
       \<and> next_interview_id w' = next_interview_id w1
       \<and> map i_id (interviews w') = map i_id (interviews w1)
       \<and> map i_session_id (interviews w') = map i_session_id (interviews w1)"
    using assms False v
    by (auto simp: finishInterview_def Let_def updateInterview_maps
             split: option.splits if_splits)
  with vf show ?thesis by simp
qed

lemma reachable_invariants:
  assumes "reachable cfg e w"
  shows "wf w \<and> (1 \<le> maxQuestions cfg \<longrightarrow> bounded cfg w)
            \<and> (0 \<le> maxFollowUpDepth cfg \<longrightarrow> shallow cfg w)"
  using assms
proof (induction rule: reachable.induct)
  case (initial w)
  then show ?case by (simp add: wf_def bounded_def shallow_def countQuestions_def)
next
  case (start w uuid now r w')
  from start(3) startInterview_wf [OF start(2)] startInterview_bounded [OF start(2)]
    startInterview_shallow [OF start(2)]
  show ?case by simp
next
  case (answer w uuid qid answerText rt now r w')
  from answer(3) processAnswer_wf [OF answer(2)] processAnswer_bounded [OF answer(2)]
    processAnswer_shallow [OF answer(2)]
  show ?case by simp
next
  case (finish w uuid now fr w')
  note fr = finishInterview_frame [OF finish(2)]
  from finish(3) have "wf w" by simp
  then have "wf w'" using fr by (intro wf_kept [of w w']) simp_all
  moreover have "bounded cfg w' = bounded cfg w" "shallow cfg w' = shallow cfg w"
    using fr by (simp_all add: bounded_def shallow_def countQuestions_def)
  ultimately show ?case using finish(3) by simp
next
  case (outside w ss cs js)
  then show ?case by (simp add: wf_def bounded_def shallow_def countQuestions_def)
qed

subsection \<open>The example session, step by step\<close>

lemmas example_defs =
  freshWorld_def scenarioA_def mockConfig_def exampleSession_def examplePlan_def
  exampleState_def exampleInterview_def question1_def question2_def answer1_def
  startedWorld_def answeredWorld_def finishedWorld_def offlineEnv_def

lemmas engine_defs =
  startInterview_def processAnswer_def recordAnswer_def followUpStep_def advanceStep_def
  rootQuestionStep_def finishTurn_def findSession_def parsedCV_def parsedJD_def
  generateQuestionPlan_def initializeInterviewState_def Math_round_def generateQuestion_def
  generateFollowUp_def getMockQuestion_def getMockFollowUp_def mockQuestions_def
  getMockEvaluation_def evaluateResponse_def toAnswerEvaluation_def determineNextAction_def
  createQuestion_def updateSessionStatus_def updateInterview_def updateCompetency_def
  recordScore_def countQuestions_def completeResult_def Let_def

lemma start_example:
  "startInterview mockConfig offlineEnv ''u'' 0 (freshWorld scenarioA) =
     (Inr \<lparr> sr_interviewId = 1,
            sr_question = \<lparr> qv_id = 1, qv_text = ''How do you design APIs for scalability?'',
                            qv_competency = ''A'' \<rparr>,
            sr_progress = \<lparr> current = 1, estimated_total = 16, pr_competency = ''A'' \<rparr> \<rparr>,
      startedWorld)"
  by (simp add: engine_defs example_defs)

lemma answer_example:
  "processAnswer mockConfig offlineEnv ''u'' 1 ''short'' None 5 startedWorld =
     (Inr \<lparr> ar_evaluation = toAnswerEvaluation (getMockEvaluation ''short''),
            nextQuestion = Some \<lparr> nq_id = 2, nq_text = ''Walk me through the steps you took.'',
                                  nq_competency = ''A'', isFollowUp = True, nq_depth = 1 \<rparr>,
            ar_progress = \<lparr> current = 2, estimated_total = 16, pr_competency = ''A'' \<rparr>,
            isComplete = False \<rparr>,
      answeredWorld)"
  by (simp add: engine_defs example_defs)


subsection \<open>Follow-up depth\<close>

lemma initial_reachable: "reachable cfg e (freshWorld areas)"
  by (rule reachable.initial) (simp_all add: freshWorld_def)

lemma started_reachable: "reachable mockConfig offlineEnv startedWorld"
  by (rule reachable.start [OF initial_reachable start_example])

lemma answered_reachable: "reachable mockConfig offlineEnv answeredWorld"
  by (rule reachable.answer [OF started_reachable answer_example])

text \<open>
  C7. With a maximum follow-up depth that is not negative, every question of every
  reachable world has \<open>depth_level \<le> maxFollowUpDepth\<close>; and a question that
  \<open>processAnswer\<close> creates is a root question of depth 0 or a follow-up of depth
  \<open>d + 1\<close> to the answered question of depth \<open>d < maxFollowUpDepth\<close>.
\<close>

theorem depth_never_exceeds_max:
  assumes "0 \<le> maxFollowUpDepth cfg" and "reachable cfg e w"
  shows "(\<forall>q\<in>set (questions w). depth_level q \<le> maxFollowUpDepth cfg)
       \<and> (\<forall>uuid qid answerText rt now r w'.
             processAnswer cfg e uuid qid answerText rt now w = (r, w') \<longrightarrow>
               questions w' = questions w
               \<or> (\<exists>q. questions w' = questions w @ [q]
                      \<and> depth_level q \<le> maxFollowUpDepth cfg
                      \<and> (depth_level q = 0
                           \<or> (\<exists>qn. find (\<lambda>q. q_id q = qid) (questions w) = Some qn
                                  \<and> depth_level q = depth_level qn + 1
                                  \<and> depth_level qn < maxFollowUpDepth cfg))))"
proof (intro conjI allI impI)
  from reachable_invariants [OF assms(2)] assms(1)
  show "\<forall>q\<in>set (questions w). depth_level q \<le> maxFollowUpDepth cfg"
    by (simp add: shallow_def)
next
  fix uuid qid answerText rt now r w'
  assume "processAnswer cfg e uuid qid answerText rt now w = (r, w')"
  from processAnswer_shape [OF this]
  show "questions w' = questions w
               \<or> (\<exists>q. questions w' = questions w @ [q]
                      \<and> depth_level q \<le> maxFollowUpDepth cfg
                      \<and> (depth_level q = 0
                           \<or> (\<exists>qn. find (\<lambda>q. q_id q = qid) (questions w) = Some qn
                                  \<and> depth_level q = depth_level qn + 1
                                  \<and> depth_level qn < maxFollowUpDepth cfg)))"
  proof (cases rule: processShape_cases)
    case same
    then show ?thesis by simp
  next
    case (more q s iv qn)
    with assms(1) show ?thesis by auto
  qed
qed

theorem depth_never_exceeds_max_witness:
  "0 \<le> maxFollowUpDepth mockConfig \<and> reachable mockConfig offlineEnv answeredWorld
   \<and> map depth_level (questions answeredWorld) = [0, 1]
   \<and> list_all (\<lambda>q. depth_level q \<le> 3) (questions answeredWorld)"
proof -
  have d: "0 \<le> maxFollowUpDepth mockConfig" by (simp add: mockConfig_def)
  from depth_never_exceeds_max [OF d answered_reachable]
  have "\<forall>q\<in>set (questions answeredWorld). depth_level q \<le> maxFollowUpDepth mockConfig"
    by blast
  then have "list_all (\<lambda>q. depth_level q \<le> 3) (questions answeredWorld)"
    by (simp add: list_all_iff mockConfig_def)
  moreover have "map depth_level (questions answeredWorld) = [0, 1]"
    by (simp add: example_defs)
  ultimately show ?thesis using d answered_reachable by simp
qed

subsection \<open>Termination\<close>











subsection \<open>Answers against a question that is not open\<close>






subsection \<open>Starting from an empty competency list\<close>







subsection \<open>Finishing twice\<close>












subsection \<open>Starting again\<close>





end
